theory Spec2Isabelle
  imports Main "HOL-Library.Signed_Division"
begin

section \<open>The payload IR, as the matchers query it\<close>

text \<open>
  TransformMatchers.cpp inspects MLIR operations read-only. The IR classes (Operation, Value,
  OpOperand, Block, linalg::LinalgOp, scf::ForeachThreadOp, tensor::ExtractSliceOp) belong to
  MLIR, so the model holds one accessor per MLIR query the source makes.

  An \<open>Operation *\<close> is an identifier; the null pointer is \<open>None\<close>. A \<open>Value\<close> is an
  operation result or a block argument, as in MLIR; only the former has a defining operation.
  An \<open>OpOperand\<close> (one use) is the pair of its owner and its operand number.
\<close>

type_synonym op_id = nat
type_synonym block_id = nat

datatype val = OpResult op_id nat | BlockArgument block_id nat

type_synonym OpOperand = "op_id \<times> nat"

fun getDefiningOp :: "val \<Rightarrow> op_id option" where
  "getDefiningOp (OpResult owner n) = Some owner"
| "getDefiningOp (BlockArgument b n) = None"

datatype IteratorType = parallel | reduction

datatype ShapeKind = Static | Dynamic

datatype op_kind = FillOp | GenericOp | ForeachThreadOp | ExtractSliceOp | FuncOp | OtherOp

text \<open>
  One operand of a structured op: the value it holds, the classification of its indexing
  map, and the bit width of its element type (\<open>None\<close> when the type is not a shaped type
  with an integer or float element type).
\<close>

record operand_info =
  get :: val
  isPermutation :: bool
  isProjectedPermutation :: bool
  elementBitWidth :: "nat option"

text \<open>
  The \<open>linalg::LinalgOp\<close> view of an operation. \<open>loops\<close> pairs, per iteration dimension,
  the entry of \<open>getStaticLoopRanges()\<close> with the entry of \<open>getIteratorTypesArray()\<close>;
  both arrays have \<open>getNumLoops()\<close> entries in MLIR. \<open>matchReduction\<close> gives, per output
  position, the number of combiner operations found by MLIR's \<open>matchReduction\<close>, or
  \<open>None\<close> when that analysis fails.
\<close>

record LinalgInfo =
  loops :: "(int \<times> IteratorType) list"
  dpsInputs :: "operand_info list"
  dpsInits :: "operand_info list"
  matchReduction :: "nat \<Rightarrow> nat option"

type_synonym LinalgOp = "op_id \<times> LinalgInfo"

record ir =
  linalgInfo :: "op_id \<Rightarrow> LinalgInfo option"
  opKind :: "op_id \<Rightarrow> op_kind"
  getNumResults :: "op_id \<Rightarrow> nat"
  getUses :: "val \<Rightarrow> OpOperand list"
  operandGet :: "OpOperand \<Rightarrow> val"
  getParentOp :: "block_id \<Rightarrow> op_id option"
  getTiedOpOperand :: "op_id \<Rightarrow> val \<Rightarrow> OpOperand option"
  getOutputBlockArguments :: "op_id \<Rightarrow> val list"
  getSource :: "op_id \<Rightarrow> val"
  getParentOfType_FuncOp :: "op_id \<Rightarrow> op_id option"
  walk :: "op_id \<Rightarrow> op_id list"
  isTilingInterface :: "op_id \<Rightarrow> bool"
  kDynamic :: int

definition dyn_cast_LinalgOp :: "ir \<Rightarrow> op_id \<Rightarrow> LinalgOp option" where
  "dyn_cast_LinalgOp g op = map_option (Pair op) (linalgInfo g op)"

definition getNumLoops :: "LinalgOp \<Rightarrow> nat" where
  "getNumLoops l = length (loops (snd l))"

definition getStaticLoopRanges :: "LinalgOp \<Rightarrow> int list" where
  "getStaticLoopRanges l = map fst (loops (snd l))"

definition getIteratorTypesArray :: "LinalgOp \<Rightarrow> IteratorType list" where
  "getIteratorTypesArray l = map snd (loops (snd l))"

definition getNumDpsInputs :: "LinalgOp \<Rightarrow> int" where
  "getNumDpsInputs l = int (length (dpsInputs (snd l)))"

definition getNumDpsInits :: "LinalgOp \<Rightarrow> int" where
  "getNumDpsInits l = int (length (dpsInits (snd l)))"

definition isDynamic :: "ir \<Rightarrow> int \<Rightarrow> bool" where
  "isDynamic g d = (d = kDynamic g)"

definition getUsers :: "ir \<Rightarrow> val \<Rightarrow> op_id list" where
  "getUsers g v = map fst (getUses g v)"

section \<open>Outcomes and matcher state\<close>

text \<open>
  A predicate either returns a boolean or leaves defined behaviour. The latter is a value
  of the model: an index outside a container (an assertion failure in a checked build, an
  out-of-bounds read otherwise), a detached block, a block argument without tied operand,
  a remainder by zero, a reserved key inserted into a dense set, or a traversal loop that
  never exits.
\<close>

datatype error =
  OutOfBounds | DetachedBlock | NoTiedOperand | DivisionByZero | ReservedKey | NonTermination

text \<open>
  The mutable part: the caller-owned \<open>int64_t\<close> cells that \<open>CaptureStaticValue\<close> refers to,
  and the \<open>captured\<close> slot of every matcher object. Both are stores indexed by address, since
  predicates hold references to cells and to nested matchers.
\<close>

type_synonym cell = nat
type_synonym matcher_id = nat

record mstate =
  cells :: "cell \<Rightarrow> int"
  captured :: "matcher_id \<Rightarrow> op_id option"

type_synonym outcome = "error + bool \<times> mstate"

type_synonym PredicateFn = "ir \<Rightarrow> LinalgOp \<Rightarrow> mstate \<Rightarrow> outcome"

text \<open>\<open>std::function<bool(Operation *)>\<close>, the type of a nested matcher callback.\<close>

type_synonym MatcherFn = "ir \<Rightarrow> op_id \<Rightarrow> mstate \<Rightarrow> outcome"

record StructuredOpMatcher =
  self :: matcher_id
  predicates :: "PredicateFn list"
  nested :: "matcher_id list"

text \<open>Element access with the bounds of the container written out.\<close>

definition at :: "'a list \<Rightarrow> int \<Rightarrow> error + 'a" where
  "at xs i = (if 0 \<le> i \<and> i < int (length xs) then Inr (xs ! nat i) else Inl OutOfBounds)"

section \<open>StructuredOpMatcher::match\<close>

text \<open>
  \<open>llvm::all_of\<close> over the predicate list: left to right, stopping at the first predicate
  that returns false. The state is threaded through the predicates that run.
\<close>

fun all_of :: "PredicateFn list \<Rightarrow> ir \<Rightarrow> LinalgOp \<Rightarrow> mstate \<Rightarrow> outcome" where
  "all_of [] g linalgOp st = Inr (True, st)"
| "all_of (fn # fns) g linalgOp st =
     (case fn g linalgOp st of
        Inl e \<Rightarrow> Inl e
      | Inr (result, st') \<Rightarrow>
          if result then all_of fns g linalgOp st' else Inr (False, st'))"

definition match :: "StructuredOpMatcher \<Rightarrow> MatcherFn" where
  "match m g op st =
     (case dyn_cast_LinalgOp g op of
        None \<Rightarrow> Inr (False, st)
      | Some linalgOp \<Rightarrow>
          (case all_of (predicates m) g linalgOp st of
             Inl e \<Rightarrow> Inl e
           | Inr (result, st') \<Rightarrow>
               if \<not> result then Inr (False, st')
               else Inr (True, st'\<lparr>captured := (captured st')(self m := Some (fst linalgOp))\<rparr>)))"

text \<open>A builder method appends its predicate: \<open>predicates.push_back(...)\<close>.\<close>

definition push_back :: "PredicateFn \<Rightarrow> StructuredOpMatcher \<Rightarrow> StructuredOpMatcher" where
  "push_back fn m = m\<lparr>predicates := predicates m @ [fn]\<rparr>"

section \<open>Constraints on op rank and dims\<close>

text \<open>
  Each builder method pushes one closure; the definitions below are those closures, named
  after the method and its tag argument. Integer types are as in the source: \<open>dimension\<close>
  and \<open>position\<close> are \<open>int64_t\<close>, a rank is \<open>unsigned\<close> and a container size is
  \<open>size_t\<close>. In \<open>rank + dimension\<close> the sum is only taken for a negative \<open>dimension\<close>
  and a rank below \<open>2^32\<close>, so it neither overflows nor wraps in 64 bits and equals the
  sum over \<open>int\<close>.
\<close>

definition rank_NumGreaterEqualTo :: "nat \<Rightarrow> PredicateFn" where
  "rank_NumGreaterEqualTo minRank g linalgOp st = Inr (getNumLoops linalgOp \<ge> minRank, st)"

definition rank_NumLowerEqualTo :: "nat \<Rightarrow> PredicateFn" where
  "rank_NumLowerEqualTo maxRank g linalgOp st = Inr (getNumLoops linalgOp \<le> maxRank, st)"

fun dim_ShapeKind_loop :: "ir \<Rightarrow> int list \<Rightarrow> ShapeKind \<Rightarrow> int list \<Rightarrow> bool" where
  "dim_ShapeKind_loop g shape kind [] = True"
| "dim_ShapeKind_loop g shape kind (dimension # dimensions) =
     (let transformedDimension =
            (if dimension \<ge> 0 then dimension else int (length shape) + dimension)
      in if transformedDimension < 0 \<or> transformedDimension \<ge> int (length shape) then False
         else if isDynamic g (shape ! nat transformedDimension) \<noteq> (kind = Static)
              then dim_ShapeKind_loop g shape kind dimensions
         else False)"

definition dim_ShapeKind :: "int list \<Rightarrow> ShapeKind \<Rightarrow> PredicateFn" where
  "dim_ShapeKind dimensions kind g linalgOp st =
     Inr (dim_ShapeKind_loop g (getStaticLoopRanges linalgOp) kind dimensions, st)"

definition dim_AllDims_ShapeKind :: "ShapeKind \<Rightarrow> PredicateFn" where
  "dim_AllDims_ShapeKind kind g linalgOp st =
     Inr (list_all (\<lambda>dimension. isDynamic g dimension \<noteq> (kind = Static))
            (getStaticLoopRanges linalgOp), st)"

fun dim_IteratorType_loop :: "LinalgOp \<Rightarrow> IteratorType \<Rightarrow> int list \<Rightarrow> bool" where
  "dim_IteratorType_loop linalgOp kind [] = True"
| "dim_IteratorType_loop linalgOp kind (dimension # dimensions) =
     (let rank = int (getNumLoops linalgOp);
          transformedDimension = (if dimension \<ge> 0 then dimension else rank + dimension)
      in if transformedDimension < 0 \<or> transformedDimension \<ge> rank then False
         else if getIteratorTypesArray linalgOp ! nat transformedDimension = kind
              then dim_IteratorType_loop linalgOp kind dimensions
         else False)"

definition dim_IteratorType :: "int list \<Rightarrow> IteratorType \<Rightarrow> PredicateFn" where
  "dim_IteratorType dimensions kind g linalgOp st =
     Inr (dim_IteratorType_loop linalgOp kind dimensions, st)"

text \<open>
  \<open>llvm::SmallDenseSet<int64_t>\<close> is a set of integers in which \<open>DenseMapInfo<long>\<close>
  (\<open>int64_t\<close> is \<open>long\<close> on LP64 targets) reserves two keys, the empty key \<open>2^63 - 1\<close>
  and the tombstone key below it. Inserting a reserved key fails the assertion of the
  container's bucket lookup.
\<close>

definition getEmptyKey :: int where
  "getEmptyKey = 2 ^ 63 - 1"

definition getTombstoneKey :: int where
  "getTombstoneKey = getEmptyKey - 1"

definition DenseSet_insert :: "int \<Rightarrow> int set \<Rightarrow> error + int set" where
  "DenseSet_insert v s =
     (if v = getEmptyKey \<or> v = getTombstoneKey then Inl ReservedKey else Inr (insert v s))"

text \<open>
  \<open>dim(AllDimsExcept, IteratorType)\<close>. The first loop inserts the normalised excluded
  indices into the set; the second runs over \<open>llvm::enumerate\<close> of the iterator types.
\<close>

fun excludedDims :: "int \<Rightarrow> int list \<Rightarrow> int set \<Rightarrow> error + int set" where
  "excludedDims rank [] s = Inr s"
| "excludedDims rank (dim # dims) s =
     (case DenseSet_insert (if dim \<ge> 0 then dim else rank + dim) s of
        Inl e \<Rightarrow> Inl e
      | Inr s' \<Rightarrow> excludedDims rank dims s')"

fun dim_AllDimsExcept_loop :: "int set \<Rightarrow> IteratorType \<Rightarrow> (nat \<times> IteratorType) list \<Rightarrow> bool" where
  "dim_AllDimsExcept_loop excl kind [] = True"
| "dim_AllDimsExcept_loop excl kind ((index, type) # rest) =
     (if int index \<in> excl then dim_AllDimsExcept_loop excl kind rest
      else if type = kind then dim_AllDimsExcept_loop excl kind rest
      else False)"

definition dim_AllDimsExcept :: "int list \<Rightarrow> IteratorType \<Rightarrow> PredicateFn" where
  "dim_AllDimsExcept excluded kind g linalgOp st =
     (let rank = int (getNumLoops linalgOp)
      in case excludedDims rank excluded {} of
           Inl e \<Rightarrow> Inl e
         | Inr excl \<Rightarrow>
             Inr (dim_AllDimsExcept_loop excl kind
                    (enumerate 0 (getIteratorTypesArray linalgOp)), st))"

definition dim_AllDims_IteratorType :: "IteratorType \<Rightarrow> PredicateFn" where
  "dim_AllDims_IteratorType kind = dim_AllDimsExcept [] kind"

text \<open>
  \<open>dim(int64_t, DivisibleBy)\<close>: only the upper bound is checked before the loop range is
  indexed. \<open>%\<close> truncates towards zero (\<open>smod\<close>) and is undefined for a zero divisor.
\<close>

definition dim_DivisibleBy :: "int \<Rightarrow> int \<Rightarrow> PredicateFn" where
  "dim_DivisibleBy dimension divisibleBy g linalgOp st =
     (let rank = int (getNumLoops linalgOp);
          transformedDimension = (if dimension \<ge> 0 then dimension else rank + dimension)
      in if transformedDimension \<ge> rank then Inr (False, st)
         else (case at (getStaticLoopRanges linalgOp) transformedDimension of
                 Inl e \<Rightarrow> Inl e
               | Inr sz \<Rightarrow>
                   if isDynamic g sz then Inr (False, st)
                   else if divisibleBy = 0 then Inl DivisionByZero
                   else Inr (sz smod divisibleBy = 0, st)))"

section \<open>Capture directives\<close>

definition rank_CaptureStaticValue :: "cell \<Rightarrow> PredicateFn" where
  "rank_CaptureStaticValue capture g linalgOp st =
     Inr (True, st\<lparr>cells := (cells st)(capture := int (getNumLoops linalgOp))\<rparr>)"

definition dim_CaptureStaticValue :: "int \<Rightarrow> cell \<Rightarrow> PredicateFn" where
  "dim_CaptureStaticValue dimension capture g linalgOp st =
     (let rank = int (getNumLoops linalgOp);
          transformedDimension = (if dimension \<ge> 0 then dimension else rank + dimension)
      in if transformedDimension \<ge> rank then Inr (False, st)
         else (case at (getStaticLoopRanges linalgOp) transformedDimension of
                 Inl e \<Rightarrow> Inl e
               | Inr sz \<Rightarrow> Inr (True, st\<lparr>cells := (cells st)(capture := sz)\<rparr>)))"

section \<open>Constraints on input operands\<close>

definition addInputMatcher :: "int \<Rightarrow> MatcherFn \<Rightarrow> bool \<Rightarrow> PredicateFn" where
  "addInputMatcher position matcher optional g linalgOp st =
     (let transformedPosition =
            (if position \<ge> 0 then position else getNumDpsInputs linalgOp + position)
      in if transformedPosition \<ge> getNumDpsInputs linalgOp then Inr (False, st)
         else (case at (dpsInputs (snd linalgOp)) transformedPosition of
                 Inl e \<Rightarrow> Inl e
               | Inr operand \<Rightarrow>
                   (case getDefiningOp (get operand) of
                      None \<Rightarrow> Inr (optional, st)
                    | Some definingOp \<Rightarrow>
                        (case matcher g definingOp st of
                           Inl e \<Rightarrow> Inl e
                         | Inr (result, st') \<Rightarrow>
                             if result then Inr (True, st') else Inr (optional, st')))))"

definition input_AllOperands_IsPermutation :: PredicateFn where
  "input_AllOperands_IsPermutation g linalgOp st =
     Inr (list_all isPermutation (dpsInputs (snd linalgOp)), st)"

definition input_AllOperands_IsProjectedPermutation :: PredicateFn where
  "input_AllOperands_IsProjectedPermutation g linalgOp st =
     Inr (list_all isProjectedPermutation (dpsInputs (snd linalgOp)), st)"

definition input_NumEqualsTo :: "nat \<Rightarrow> PredicateFn" where
  "input_NumEqualsTo num g linalgOp st = Inr (getNumDpsInputs linalgOp = int num, st)"

section \<open>Subset traversals\<close>

text \<open>
  \<open>traverseSubsetsBackwards\<close>: a \<open>do ... while (true)\<close> whose \<open>continue\<close> restarts the
  body with the new value. The result is \<open>None\<close> when the loop never exits. A value without
  defining operation is a block argument; a detached block and a block argument without
  tied operand fail assertions.
\<close>

partial_function (option) traverseSubsetsBackwards :: "ir \<Rightarrow> val \<Rightarrow> (error + op_id) option" where
  "traverseSubsetsBackwards g v =
     (case v of
        BlockArgument owner n \<Rightarrow>
          (case getParentOp g owner of
             None \<Rightarrow> Some (Inl DetachedBlock)
           | Some blockOp \<Rightarrow>
               if opKind g blockOp = ForeachThreadOp
               then (case getTiedOpOperand g blockOp v of
                       None \<Rightarrow> Some (Inl NoTiedOperand)
                     | Some tied \<Rightarrow> traverseSubsetsBackwards g (operandGet g tied))
               else Some (Inr blockOp))
      | OpResult op n \<Rightarrow>
          if opKind g op = ExtractSliceOp then traverseSubsetsBackwards g (getSource g op)
          else Some (Inr op))"

text \<open>
  \<open>traverseSubsetsForwardAnyUse\<close>: the range-for iterates the use list of the value the
  \<open>do\<close> body started with; its \<open>continue\<close> statements go on with the next use of that list,
  carrying the reassigned \<open>val\<close>. \<open>scanUses\<close> is one run of the range-for: \<open>Inl user\<close>
  when it returns, \<open>Inr val\<close> when the list is exhausted and the \<open>do\<close> body restarts.
\<close>

fun scanUses :: "ir \<Rightarrow> OpOperand list \<Rightarrow> val \<Rightarrow> op_id + val" where
  "scanUses g [] v = Inr v"
| "scanUses g (use # uses) v =
     (let user = fst use
      in if opKind g user = ForeachThreadOp
         then (case find (\<lambda>bbarg. getTiedOpOperand g user bbarg \<noteq> Some use)
                      (getOutputBlockArguments g user) of
                 None \<Rightarrow> Inl user
               | Some bbarg \<Rightarrow> scanUses g uses bbarg)
         else if opKind g user = ExtractSliceOp then scanUses g uses (OpResult user 0)
         else Inl user)"

partial_function (option) traverseSubsetsForwardAnyUse :: "ir \<Rightarrow> val \<Rightarrow> op_id option" where
  "traverseSubsetsForwardAnyUse g v =
     (case scanUses g (getUses g v) v of
        Inl user \<Rightarrow> Some user
      | Inr v' \<Rightarrow> traverseSubsetsForwardAnyUse g v')"

definition input_SubsetOf :: "int \<Rightarrow> StructuredOpMatcher \<Rightarrow> PredicateFn" where
  "input_SubsetOf position nestedMatcher g linalgOp st =
     (let transformedPosition =
            (if position \<ge> 0 then position else getNumDpsInputs linalgOp + position)
      in if transformedPosition \<ge> getNumDpsInputs linalgOp then Inr (False, st)
         else (case at (dpsInputs (snd linalgOp)) transformedPosition of
                 Inl e \<Rightarrow> Inl e
               | Inr operand \<Rightarrow>
                   (case traverseSubsetsBackwards g (get operand) of
                      None \<Rightarrow> Inl NonTermination
                    | Some (Inl e) \<Rightarrow> Inl e
                    | Some (Inr producer) \<Rightarrow> match nestedMatcher g producer st)))"

section \<open>Constraints on output operands\<close>

definition addOutputMatcher :: "int \<Rightarrow> MatcherFn \<Rightarrow> bool \<Rightarrow> PredicateFn" where
  "addOutputMatcher position matcher optional g linalgOp st =
     (let transformedPosition =
            (if position \<ge> 0 then position else getNumDpsInits linalgOp + position)
      in if transformedPosition \<ge> getNumDpsInits linalgOp then Inr (False, st)
         else (case at (dpsInits (snd linalgOp)) transformedPosition of
                 Inl e \<Rightarrow> Inl e
               | Inr operand \<Rightarrow>
                   (case getDefiningOp (get operand) of
                      None \<Rightarrow> Inr (optional, st)
                    | Some definingOp \<Rightarrow>
                        (case matcher g definingOp st of
                           Inl e \<Rightarrow> Inl e
                         | Inr (result, st') \<Rightarrow>
                             if result then Inr (True, st') else Inr (optional, st')))))"

definition output_AllOperands_IsPermutation :: PredicateFn where
  "output_AllOperands_IsPermutation g linalgOp st =
     Inr (list_all isPermutation (dpsInits (snd linalgOp)), st)"

definition output_AllOperands_IsProjectedPermutation :: PredicateFn where
  "output_AllOperands_IsProjectedPermutation g linalgOp st =
     Inr (list_all isProjectedPermutation (dpsInits (snd linalgOp)), st)"

definition output_ElementTypeBitWidth :: "int \<Rightarrow> nat \<Rightarrow> PredicateFn" where
  "output_ElementTypeBitWidth position width g linalgOp st =
     (let updatedPosition =
            (if position \<ge> 0 then position else getNumDpsInits linalgOp + position)
      in if updatedPosition \<ge> getNumDpsInits linalgOp then Inr (False, st)
         else (case at (dpsInits (snd linalgOp)) updatedPosition of
                 Inl e \<Rightarrow> Inl e
               | Inr operand \<Rightarrow> Inr (elementBitWidth operand = Some width, st)))"

text \<open>
  \<open>output(int64_t, SingleCombinerReduction)\<close>: the position is converted to the
  \<open>unsigned\<close> parameter of MLIR's \<open>matchReduction\<close> (modulo \<open>2^32\<close>), which must
  name an output.
\<close>

definition output_SingleCombinerReduction :: "int \<Rightarrow> PredicateFn" where
  "output_SingleCombinerReduction position g linalgOp st =
     (let updatedPosition =
            (if position \<ge> 0 then position else getNumDpsInits linalgOp + position)
      in if updatedPosition \<ge> getNumDpsInits linalgOp then Inr (False, st)
         else (let redPos = nat (updatedPosition mod 2 ^ 32)
               in if redPos \<ge> length (dpsInits (snd linalgOp)) then Inl OutOfBounds
                  else Inr (matchReduction (snd linalgOp) redPos = Some 1, st)))"

text \<open>
  \<open>output(int64_t, SubsetOf)\<close>: the position is normalised and bounded with
  \<open>getNumDpsInputs()\<close>, and then names an init operand (\<open>getDpsInitOperand\<close>).
\<close>

definition output_SubsetOf :: "int \<Rightarrow> StructuredOpMatcher \<Rightarrow> PredicateFn" where
  "output_SubsetOf position nestedMatcher g linalgOp st =
     (let transformedPosition =
            (if position \<ge> 0 then position else getNumDpsInputs linalgOp + position)
      in if transformedPosition \<ge> getNumDpsInputs linalgOp then Inr (False, st)
         else (case at (dpsInits (snd linalgOp)) transformedPosition of
                 Inl e \<Rightarrow> Inl e
               | Inr operand \<Rightarrow>
                   (case traverseSubsetsBackwards g (get operand) of
                      None \<Rightarrow> Inl NonTermination
                    | Some (Inl e) \<Rightarrow> Inl e
                    | Some (Inr producer) \<Rightarrow> match nestedMatcher g producer st)))"

definition output_NumEqualsTo :: "nat \<Rightarrow> PredicateFn" where
  "output_NumEqualsTo num g linalgOp st = Inr (getNumDpsInits linalgOp = int num, st)"

section \<open>Constraints on results\<close>

text \<open>
  \<open>Operation::getResult(unsigned idx)\<close>: the \<open>int64_t\<close> position is converted to
  \<open>unsigned\<close> (modulo \<open>2^32\<close>) and must name a result.
\<close>

definition getResult :: "ir \<Rightarrow> op_id \<Rightarrow> int \<Rightarrow> error + val" where
  "getResult g op i =
     (let idx = nat (i mod 2 ^ 32)
      in if idx < getNumResults g op then Inr (OpResult op idx) else Inl OutOfBounds)"

text \<open>\<open>llvm::any_of\<close> over the users: stops at the first user the matcher accepts.\<close>

fun any_of :: "MatcherFn \<Rightarrow> ir \<Rightarrow> op_id list \<Rightarrow> mstate \<Rightarrow> outcome" where
  "any_of matcher g [] st = Inr (False, st)"
| "any_of matcher g (op # ops) st =
     (case matcher g op st of
        Inl e \<Rightarrow> Inl e
      | Inr (result, st') \<Rightarrow>
          if result then Inr (True, st') else any_of matcher g ops st')"

definition addResultMatcher :: "int \<Rightarrow> MatcherFn \<Rightarrow> bool \<Rightarrow> PredicateFn" where
  "addResultMatcher position matcher optional g linalgOp st =
     (let numResults = int (getNumResults g (fst linalgOp));
          transformedPosition = (if position \<ge> 0 then position else numResults + position)
      in if transformedPosition \<ge> numResults then Inr (False, st)
         else (case getResult g (fst linalgOp) transformedPosition of
                 Inl e \<Rightarrow> Inl e
               | Inr res \<Rightarrow>
                   (case any_of matcher g (getUsers g res) st of
                      Inl e \<Rightarrow> Inl e
                    | Inr (result, st') \<Rightarrow>
                        if result then Inr (True, st') else Inr (optional, st'))))"

definition result_HasAnyUse_SubsetOf :: "int \<Rightarrow> StructuredOpMatcher \<Rightarrow> bool \<Rightarrow> PredicateFn" where
  "result_HasAnyUse_SubsetOf position nestedMatcher optional g linalgOp st =
     (let numResults = int (getNumResults g (fst linalgOp));
          transformedPosition = (if position \<ge> 0 then position else numResults + position)
      in if transformedPosition \<ge> numResults then Inr (False, st)
         else (case getResult g (fst linalgOp) transformedPosition of
                 Inl e \<Rightarrow> Inl e
               | Inr res \<Rightarrow>
                   (case traverseSubsetsForwardAnyUse g res of
                      None \<Rightarrow> Inl NonTermination
                    | Some user \<Rightarrow>
                        (case match nestedMatcher g user st of
                           Inl e \<Rightarrow> Inl e
                         | Inr (result, st') \<Rightarrow> Inr (result \<or> optional, st')))))"

section \<open>Exhaustiveness\<close>

text \<open>
  \<open>checkAllTilableMatched\<close>. \<open>parent->walk\<close> visits the operations nested under
  \<open>parent\<close> (the accessor \<open>walk\<close>) and the callback runs on those that implement
  \<open>TilingInterface\<close>. The \<open>SmallPtrSet\<close> is a set of operations; \<open>getCaptured()\<close> reads a
  matcher's slot.
\<close>

definition collectCaptured :: "matcher_id list \<Rightarrow> mstate \<Rightarrow> op_id set" where
  "collectCaptured matchers st =
     fold (\<lambda>nestedM matched.
             case captured st nestedM of
               None \<Rightarrow> matched
             | Some c \<Rightarrow> insert c matched) matchers {}"

definition checkAllTilableMatched ::
  "ir \<Rightarrow> op_id option \<Rightarrow> LinalgOp \<Rightarrow> matcher_id list \<Rightarrow> mstate \<Rightarrow> bool" where
  "checkAllTilableMatched g parent linalgOp matchers st =
     (case parent of
        None \<Rightarrow> False
      | Some p \<Rightarrow>
          (let numTilableOps = length (filter (isTilingInterface g) (walk g p));
               matched = insert (fst linalgOp) (collectCaptured matchers st)
           in numTilableOps = card matched))"

section \<open>Builder entry points of the header\<close>

text \<open>
  Modelled from the spec: \<open>m_StructuredOp()\<close> of TransformMatchers.h, which is not among
  the sources. A new matcher has no predicate, no nested matcher and an empty captured
  slot; \<open>self\<close> is the address of the object the new matcher is assigned to.
\<close>

definition m_StructuredOp :: "matcher_id \<Rightarrow> StructuredOpMatcher" where
  "m_StructuredOp i = \<lparr>self = i, predicates = [], nested = []\<rparr>"

text \<open>
  Modelled from the spec: the kind filter of \<open>m_StructuredOp<OpTy...>()\<close> in
  TransformMatchers.h, which is not among the sources. A node whose kind is not one of the
  allowed kinds is a non-match.
\<close>

definition isa_kind :: "op_kind list \<Rightarrow> PredicateFn" where
  "isa_kind kinds g linalgOp st = Inr (opKind g (fst linalgOp) \<in> set kinds, st)"

text \<open>
  Modelled from the spec: \<open>m_StructuredOp<OpTy...>()\<close> of TransformMatchers.h, which is
  not among the sources. The allowed operation kinds are an initial filter, the first
  predicate of the new matcher.
\<close>

definition m_StructuredOp_isa :: "matcher_id \<Rightarrow> op_kind list \<Rightarrow> StructuredOpMatcher" where
  "m_StructuredOp_isa i kinds = push_back (isa_kind kinds) (m_StructuredOp i)"

text \<open>
  Modelled from the spec: \<open>OptionalMatch()\<close> of TransformMatchers.h, which is not among
  the sources: the tag that marks a nested match as optional.
\<close>

definition OptionalMatch :: bool where
  "OptionalMatch = True"

text \<open>
  Modelled from the spec: \<open>recordNestedMatcher\<close> of TransformMatchers.h, which is not
  among the sources. A predicate that embeds a matcher registers it, and the matchers it
  embeds, with the owner.
\<close>

definition recordNestedMatcher :: "StructuredOpMatcher \<Rightarrow> StructuredOpMatcher \<Rightarrow> StructuredOpMatcher" where
  "recordNestedMatcher n m = m\<lparr>nested := nested m @ self n # nested n\<rparr>"

text \<open>
  Modelled from the spec: the template \<open>input(position, matcher, optional)\<close> of
  TransformMatchers.h, which is not among the sources. It wraps the nested matcher's
  \<open>match\<close> into a callback, hands it to \<open>addInputMatcher\<close> of the source and records
  the nested matcher.
\<close>

definition input_Matcher :: "int \<Rightarrow> StructuredOpMatcher \<Rightarrow> bool \<Rightarrow> StructuredOpMatcher \<Rightarrow> StructuredOpMatcher" where
  "input_Matcher position n optional m =
     recordNestedMatcher n (push_back (addInputMatcher position (match n) optional) m)"

text \<open>
  Modelled from the spec: the template \<open>output(position, matcher, optional)\<close> of
  TransformMatchers.h, which is not among the sources; as for inputs, over
  \<open>addOutputMatcher\<close>.
\<close>

definition output_Matcher :: "int \<Rightarrow> StructuredOpMatcher \<Rightarrow> bool \<Rightarrow> StructuredOpMatcher \<Rightarrow> StructuredOpMatcher" where
  "output_Matcher position n optional m =
     recordNestedMatcher n (push_back (addOutputMatcher position (match n) optional) m)"

text \<open>
  Modelled from the spec: the template \<open>result(position, HasAnyUse, matcher, optional)\<close>
  of TransformMatchers.h, which is not among the sources; as for inputs, over
  \<open>addResultMatcher\<close>.
\<close>

definition result_HasAnyUse_Matcher :: "int \<Rightarrow> StructuredOpMatcher \<Rightarrow> bool \<Rightarrow> StructuredOpMatcher \<Rightarrow> StructuredOpMatcher" where
  "result_HasAnyUse_Matcher position n optional m =
     recordNestedMatcher n (push_back (addResultMatcher position (match n) optional) m)"

text \<open>
  Modelled from the spec: \<open>allTilableOpsCaptured<func::FuncOp>()\<close> of TransformMatchers.h,
  which is not among the sources. The predicate runs \<open>checkAllTilableMatched\<close> of the
  source on the enclosing function, with the matcher itself and the nested matchers
  recorded so far.
\<close>

definition allTilableOpsCaptured :: "StructuredOpMatcher \<Rightarrow> StructuredOpMatcher" where
  "allTilableOpsCaptured m =
     push_back (\<lambda>g linalgOp st.
        Inr (checkAllTilableMatched g (getParentOfType_FuncOp g (fst linalgOp)) linalgOp
               (self m # nested m) st, st)) m"

section \<open>Case-specific matcher builders\<close>

text \<open>
  \<open>MatchedReductionCaptures\<close>: the addresses of the five \<open>int64_t\<close> fields of the struct
  the caller passes by reference.
\<close>

record MatchedReductionCaptures =
  reductionRank :: cell
  reductionDimensionSize :: cell
  mostMinorParallelDimensionSize :: cell
  maybeLeadingRank :: cell
  maybeTrailingRank :: cell

record ReductionMatchers =
  reductionM :: StructuredOpMatcher
  fillM :: StructuredOpMatcher
  leadingM :: StructuredOpMatcher
  trailingM :: StructuredOpMatcher

text \<open>A chain of builder calls \<open>m.a(...).b(...)\<close> applies the steps from left to right.\<close>

definition chain :: "StructuredOpMatcher \<Rightarrow> (StructuredOpMatcher \<Rightarrow> StructuredOpMatcher) list \<Rightarrow> StructuredOpMatcher" where
  "chain m steps = fold (\<lambda>step acc. step acc) steps m"

text \<open>
  \<open>makeReductionMatcher\<close>. The four matchers are objects of the caller, passed by reference
  and assigned here; an assignment copies predicates, nested list and the (empty) captured
  slot into the object at that address. \<open>commonId\<close> is the address of the local
  \<open>commonLeadingOrTrailing\<close>; \<open>commonLeadingOrTrailing.rank(...)\<close> appends to that local
  matcher itself before it is copied, so the second copy holds both rank captures.
  \<open>dim(-1, kind)\<close> is the list predicate on a one-element list and \<open>output(0, fill)\<close>
  is not optional, as the header's overload and default argument have it.
\<close>

definition makeReductionMatcher ::
  "matcher_id \<Rightarrow> matcher_id \<Rightarrow> matcher_id \<Rightarrow> matcher_id \<Rightarrow> matcher_id
   \<Rightarrow> MatchedReductionCaptures \<Rightarrow> mstate \<Rightarrow> ReductionMatchers \<times> mstate" where
  "makeReductionMatcher reductionId fillId leadingId trailingId commonId captures st =
     (let reduction1 = chain (m_StructuredOp reductionId)
            [push_back (rank_NumGreaterEqualTo 2),
             push_back (rank_NumLowerEqualTo 4),
             push_back (rank_CaptureStaticValue (reductionRank captures)),
             push_back (dim_IteratorType [- 1] reduction),
             push_back (dim_CaptureStaticValue (- 2) (mostMinorParallelDimensionSize captures)),
             push_back (dim_CaptureStaticValue (- 1) (reductionDimensionSize captures)),
             push_back (dim_AllDimsExcept [- 1] parallel),
             push_back (input_NumEqualsTo 1),
             push_back input_AllOperands_IsProjectedPermutation,
             push_back (output_NumEqualsTo 1),
             push_back output_AllOperands_IsProjectedPermutation,
             push_back (output_ElementTypeBitWidth 0 32),
             push_back (output_SingleCombinerReduction 0)];
          fill = m_StructuredOp_isa fillId [FillOp];
          reduction2 = chain reduction1
            [push_back (output_NumEqualsTo 1),
             output_Matcher 0 fill False];
          common0 = chain (m_StructuredOp_isa commonId [GenericOp])
            [push_back (dim_AllDims_IteratorType parallel),
             push_back input_AllOperands_IsProjectedPermutation,
             push_back output_AllOperands_IsPermutation,
             push_back (output_NumEqualsTo 1)];
          common1 = push_back (rank_CaptureStaticValue (maybeLeadingRank captures)) common0;
          leading = common1\<lparr>self := leadingId\<rparr>;
          reduction3 = input_Matcher 0 leading OptionalMatch reduction2;
          common2 = push_back (rank_CaptureStaticValue (maybeTrailingRank captures)) common1;
          trailing = common2\<lparr>self := trailingId\<rparr>;
          reduction4 = chain reduction3
            [result_HasAnyUse_Matcher 0 trailing OptionalMatch,
             allTilableOpsCaptured]
      in (\<lparr>reductionM = reduction4, fillM = fill, leadingM = leading, trailingM = trailing\<rparr>,
          st\<lparr>captured := (captured st)(reductionId := None, fillId := None,
                                        leadingId := None, trailingId := None)\<rparr>))"

section \<open>Example payloads\<close>

text \<open>
  A function (operation 0, body block 0) that reduces its argument: a constant (5), an
  empty tensor (1), a fill (2) of that tensor, the reduction (3) over the block argument
  into the filled tensor, and the return (4) of the reduction's result. The iteration space
  of the reduction is 128 (parallel) by 64 (reduction); tensors hold 32-bit elements.
\<close>

definition fill_info :: LinalgInfo where
  "fill_info =
     \<lparr>loops = [(128, parallel)],
      dpsInputs = [\<lparr>get = OpResult 5 0, isPermutation = False,
                    isProjectedPermutation = True, elementBitWidth = None\<rparr>],
      dpsInits = [\<lparr>get = OpResult 1 0, isPermutation = True,
                   isProjectedPermutation = True, elementBitWidth = Some 32\<rparr>],
      matchReduction = (\<lambda>i. None)\<rparr>"

definition reduction_info :: LinalgInfo where
  "reduction_info =
     \<lparr>loops = [(128, parallel), (64, reduction)],
      dpsInputs = [\<lparr>get = BlockArgument 0 0, isPermutation = True,
                    isProjectedPermutation = True, elementBitWidth = Some 32\<rparr>],
      dpsInits = [\<lparr>get = OpResult 2 0, isPermutation = False,
                   isProjectedPermutation = True, elementBitWidth = Some 32\<rparr>],
      matchReduction = (\<lambda>i. if i = 0 then Some 1 else None)\<rparr>"

definition example_ir :: ir where
  "example_ir =
     \<lparr>linalgInfo = (\<lambda>op. if op = 2 then Some fill_info
                          else if op = 3 then Some reduction_info else None),
      opKind = (\<lambda>op. if op = 0 then FuncOp else if op = 2 then FillOp
                      else if op = 3 then GenericOp else OtherOp),
      getNumResults = (\<lambda>op. if op = 1 \<or> op = 2 \<or> op = 3 \<or> op = 5 then 1 else 0),
      getUses = (\<lambda>v. if v = OpResult 5 0 then [(2, 0)]
                      else if v = OpResult 1 0 then [(2, 1)]
                      else if v = BlockArgument 0 0 then [(3, 0)]
                      else if v = OpResult 2 0 then [(3, 1)]
                      else if v = OpResult 3 0 then [(4, 0)] else []),
      operandGet = (\<lambda>use. if use = (2, 0) then OpResult 5 0
                          else if use = (2, 1) then OpResult 1 0
                          else if use = (3, 0) then BlockArgument 0 0
                          else if use = (3, 1) then OpResult 2 0 else OpResult 3 0),
      getParentOp = (\<lambda>b. if b = 0 then Some 0 else None),
      getTiedOpOperand = (\<lambda>loop bbarg. None),
      getOutputBlockArguments = (\<lambda>loop. []),
      getSource = (\<lambda>op. BlockArgument 0 0),
      getParentOfType_FuncOp = (\<lambda>op. if op = 0 then None else Some 0),
      walk = (\<lambda>op. if op = 0 then [5, 1, 2, 3, 4, 0] else [op]),
      isTilingInterface = (\<lambda>op. op = 2 \<or> op = 3),
      kDynamic = - 9223372036854775808\<rparr>"

text \<open>The same function with one more tilable operation (6) in its body.\<close>

definition example_ir_extra :: ir where
  "example_ir_extra =
     example_ir\<lparr>walk := (\<lambda>op. if op = 0 then [5, 1, 2, 6, 3, 4, 0] else [op]),
                isTilingInterface := (\<lambda>op. op = 2 \<or> op = 3 \<or> op = 6)\<rparr>"

text \<open>The same function when the result of the reduction is not used.\<close>

definition example_ir_unused :: ir where
  "example_ir_unused =
     example_ir\<lparr>getUses := (\<lambda>v. if v = OpResult 3 0 then [] else getUses example_ir v)\<rparr>"

definition init_state :: mstate where
  "init_state = \<lparr>cells = (\<lambda>c. 0), captured = (\<lambda>m. None)\<rparr>"

text \<open>
  A matcher at address 0 that captures the rank into cell 0, requires rank at least 3 and
  then captures the rank into cell 1; one that captures the rank into cells 0 and 1,
  requires rank at least 3 and then captures the rank into cell 2; a matcher that requires
  rank at least 2; and a matcher at address 1 that captures the rank into cell 7 and then
  requires rank at least 5.
\<close>

definition three_step_matcher :: StructuredOpMatcher where
  "three_step_matcher =
     \<lparr>self = 0,
      predicates = [rank_CaptureStaticValue 0, rank_NumGreaterEqualTo 3,
                    rank_CaptureStaticValue 1],
      nested = []\<rparr>"

definition four_step_matcher :: StructuredOpMatcher where
  "four_step_matcher =
     \<lparr>self = 0,
      predicates = [rank_CaptureStaticValue 0, rank_CaptureStaticValue 1,
                    rank_NumGreaterEqualTo 3, rank_CaptureStaticValue 2],
      nested = []\<rparr>"

definition rank2_matcher :: StructuredOpMatcher where
  "rank2_matcher = \<lparr>self = 0, predicates = [rank_NumGreaterEqualTo 2], nested = []\<rparr>"

definition capture_then_fail_matcher :: StructuredOpMatcher where
  "capture_then_fail_matcher =
     \<lparr>self = 1, predicates = [rank_CaptureStaticValue 7, rank_NumGreaterEqualTo 5],
      nested = []\<rparr>"

text \<open>
  A value (result 0 of operation 10) passed as the shared output (operand 1) of a
  \<open>foreach_thread\<close> loop (operation 11, body block 1). The loop has one output block
  argument (argument 1 of block 1), tied to that operand and used by operation 12 in the body.
\<close>

definition loop_ir :: ir where
  "loop_ir =
     example_ir\<lparr>opKind := (\<lambda>op. if op = 11 then ForeachThreadOp else OtherOp),
                getUses := (\<lambda>v. if v = OpResult 10 0 then [(11, 1)]
                                else if v = BlockArgument 1 1 then [(12, 0)] else []),
                operandGet := (\<lambda>use. if use = (11, 1) then OpResult 10 0
                                      else BlockArgument 1 1),
                getParentOp := (\<lambda>b. if b = 1 then Some 11 else None),
                getTiedOpOperand := (\<lambda>loop bbarg.
                    if loop = 11 \<and> bbarg = BlockArgument 1 1 then Some (11, 1) else None),
                getOutputBlockArguments := (\<lambda>loop. if loop = 11 then [BlockArgument 1 1] else [])\<rparr>"

text \<open>
  The same loop with two shared outputs: operand 1 holds result 0 of operation 10 and is
  tied to block argument 1 (used by operation 12); operand 2 holds result 0 of operation 9
  and is tied to block argument 2 (used by operation 13).
\<close>

definition loop2_ir :: ir where
  "loop2_ir =
     loop_ir\<lparr>getUses := (\<lambda>v. if v = OpResult 10 0 then [(11, 1)]
                             else if v = OpResult 9 0 then [(11, 2)]
                             else if v = BlockArgument 1 1 then [(12, 0)]
                             else if v = BlockArgument 1 2 then [(13, 0)] else []),
             operandGet := (\<lambda>use. if use = (11, 1) then OpResult 10 0
                                   else if use = (11, 2) then OpResult 9 0
                                   else if use = (12, 0) then BlockArgument 1 1
                                   else BlockArgument 1 2),
             getTiedOpOperand := (\<lambda>loop bbarg.
                 if loop = 11 \<and> bbarg = BlockArgument 1 1 then Some (11, 1)
                 else if loop = 11 \<and> bbarg = BlockArgument 1 2 then Some (11, 2) else None),
             getOutputBlockArguments := (\<lambda>loop.
                 if loop = 11 then [BlockArgument 1 1, BlockArgument 1 2] else [])\<rparr>"

text \<open>
  Structured operations whose input and init counts differ: operation 20 has no input and
  one init, operation 22 has two inputs and one init. The init of each is the result of a
  fill (operation 21).
\<close>

definition no_input_info :: LinalgInfo where
  "no_input_info =
     \<lparr>loops = [(16, parallel)],
      dpsInputs = [],
      dpsInits = [\<lparr>get = OpResult 21 0, isPermutation = True,
                   isProjectedPermutation = True, elementBitWidth = Some 32\<rparr>],
      matchReduction = (\<lambda>i. None)\<rparr>"

definition two_input_info :: LinalgInfo where
  "two_input_info =
     \<lparr>loops = [(16, parallel)],
      dpsInputs = [\<lparr>get = BlockArgument 0 0, isPermutation = True,
                    isProjectedPermutation = True, elementBitWidth = Some 32\<rparr>,
                   \<lparr>get = BlockArgument 0 1, isPermutation = True,
                    isProjectedPermutation = True, elementBitWidth = Some 32\<rparr>],
      dpsInits = [\<lparr>get = OpResult 21 0, isPermutation = True,
                   isProjectedPermutation = True, elementBitWidth = Some 32\<rparr>],
      matchReduction = (\<lambda>i. None)\<rparr>"

definition operands_ir :: ir where
  "operands_ir =
     example_ir\<lparr>linalgInfo := (\<lambda>op. if op = 20 then Some no_input_info
                                    else if op = 21 then Some fill_info
                                    else if op = 22 then Some two_input_info else None),
                opKind := (\<lambda>op. if op = 21 then FillOp
                                else if op = 20 \<or> op = 22 then GenericOp else OtherOp)\<rparr>"

definition fill_matcher :: StructuredOpMatcher where
  "fill_matcher = m_StructuredOp_isa 9 [FillOp]"

definition example_captures :: MatchedReductionCaptures where
  "example_captures =
     \<lparr>reductionRank = 0, reductionDimensionSize = 1, mostMinorParallelDimensionSize = 2,
      maybeLeadingRank = 3, maybeTrailingRank = 4\<rparr>"

text \<open>
  The example function with a reduction whose input indexing map is not a projected
  permutation.
\<close>

definition arbitrary_map_info :: LinalgInfo where
  "arbitrary_map_info =
     reduction_info\<lparr>dpsInputs := [\<lparr>get = BlockArgument 0 0, isPermutation = False,
                                    isProjectedPermutation = False,
                                    elementBitWidth = Some 32\<rparr>]\<rparr>"

definition arbitrary_map_ir :: ir where
  "arbitrary_map_ir =
     example_ir\<lparr>linalgInfo := (\<lambda>op. if op = 2 then Some fill_info
                                    else if op = 3 then Some arbitrary_map_info else None)\<rparr>"

text \<open>
  The matchers and the state that \<open>makeReductionMatcher\<close> builds for matcher objects at
  addresses 10 to 14 and the example captures; that state once the three capture
  predicates of the reduction matcher have run on the example reduction; and the latter
  once the fill matcher has captured the fill.
\<close>

definition built_matchers :: ReductionMatchers where
  "built_matchers = fst (makeReductionMatcher 10 11 12 13 14 example_captures init_state)"

definition built_state :: mstate where
  "built_state = snd (makeReductionMatcher 10 11 12 13 14 example_captures init_state)"

definition cells_written_state :: mstate where
  "cells_written_state = built_state\<lparr>cells := (cells built_state)(0 := 2, 2 := 128, 1 := 64)\<rparr>"

definition fill_captured_state :: mstate where
  "fill_captured_state =
     cells_written_state\<lparr>captured := (captured cells_written_state)(11 := Some 2)\<rparr>"

text \<open>
  The state after \<open>rank2_matcher\<close> has matched the reduction (operation 3), and a state in
  which the fill matcher at address 9 has captured the fill (operation 2).
\<close>

definition stale_state :: mstate where
  "stale_state = init_state\<lparr>captured := (captured init_state)(0 := Some 3)\<rparr>"

definition exhaustive_state :: mstate where
  "exhaustive_state = init_state\<lparr>captured := (captured init_state)(9 := Some 2)\<rparr>"

section \<open>Short-circuit evaluation\<close>

lemma all_of_append_fail:
  "all_of ps g l st = Inr (True, st1) \<Longrightarrow> p g l st1 = Inr (False, st2)
   \<Longrightarrow> all_of (ps @ p # qs) g l st = Inr (False, st2)"
proof (induction ps arbitrary: st)
  case Nil
  then show ?case by simp
next
  case (Cons a ps)
  from Cons.prems(1) obtain sa where a: "a g l st = Inr (True, sa)"
    and rest: "all_of ps g l sa = Inr (True, st1)"
    by (auto split: sum.splits prod.splits if_splits)
  from Cons.IH [OF rest Cons.prems(2)] a show ?case by simp
qed

text \<open>
  A run of predicates that all return true, given by the states between them: predicate
  \<open>i\<close> starts in state \<open>ss ! i\<close> and leaves state \<open>ss ! Suc i\<close>.
\<close>

lemma all_of_passing_run:
  "length ss = Suc (length ps)
   \<Longrightarrow> \<forall>i < length ps. (ps ! i) g l (ss ! i) = Inr (True, ss ! Suc i)
   \<Longrightarrow> all_of ps g l (ss ! 0) = Inr (True, ss ! length ps)"
proof (induction ps arbitrary: ss)
  case Nil
  then show ?case by simp
next
  case (Cons a ps)
  from Cons.prems(1) obtain s0 ss' where ss: "ss = s0 # ss'" and len: "length ss' = Suc (length ps)"
    by (cases ss) auto
  from Cons.prems(2) have "((a # ps) ! 0) g l (ss ! 0) = Inr (True, ss ! Suc 0)"
    by blast
  with ss have first: "a g l s0 = Inr (True, ss' ! 0)" by simp
  have "\<forall>i < length ps. (ps ! i) g l (ss' ! i) = Inr (True, ss' ! Suc i)"
  proof (intro allI impI)
    fix i assume "i < length ps"
    then have "Suc i < length (a # ps)" by simp
    with Cons.prems(2) have "((a # ps) ! Suc i) g l (ss ! Suc i) = Inr (True, ss ! Suc (Suc i))"
      by blast
    with ss show "(ps ! i) g l (ss' ! i) = Inr (True, ss' ! Suc i)" by simp
  qed
  from Cons.IH [OF len this] first ss show ?case by simp
qed

text \<open>
  C1. Let the predicates of the matcher be \<open>ps\<close>, then \<open>p\<close>, then \<open>qs\<close>, in registration
  order. Suppose every predicate of \<open>ps\<close>, run in that order, each from the state its
  predecessor left (the first from the state \<open>match\<close> starts in), returns true, and \<open>p\<close>,
  run from the state the last of them left, returns false leaving \<open>st2\<close>. Then \<open>match\<close>
  returns false with exactly \<open>st2\<close>: every predicate up to and including \<open>p\<close> has run, in
  order, and its writes are kept; whatever predicates \<open>qs\<close> are registered after \<open>p\<close> have
  no effect, so none of them ran.
\<close>

theorem match_short_circuit:
  assumes "dyn_cast_LinalgOp g op = Some l"
    and "predicates m = ps @ p # qs"
    and "length ss = Suc (length ps)"
    and "ss ! 0 = st"
    and "\<forall>i < length ps. (ps ! i) g l (ss ! i) = Inr (True, ss ! Suc i)"
    and "p g l (ss ! length ps) = Inr (False, st2)"
  shows "match m g op st = Inr (False, st2)"
proof -
  from all_of_passing_run [OF assms(3) assms(5)] assms(4)
  have run: "all_of ps g l st = Inr (True, ss ! length ps)" by simp
  have "all_of (ps @ p # qs) g l st = Inr (False, st2)"
    using run assms(6) by (rule all_of_append_fail)
  with assms(1) assms(2) show ?thesis by (simp add: match_def)
qed

text \<open>
  The example: on the reduction (rank 2) the first two predicates write 2 into cells 0 and
  1, the third (rank at least 3) fails, and cell 2, which the fourth predicate would write,
  keeps its 0.
\<close>

theorem match_short_circuit_witness:
  "match four_step_matcher example_ir 3 init_state
     = Inr (False, init_state\<lparr>cells := (cells init_state)(0 := 2, 1 := 2)\<rparr>)
   \<and> cells (init_state\<lparr>cells := (cells init_state)(0 := 2, 1 := 2)\<rparr>) 0 = 2
   \<and> cells (init_state\<lparr>cells := (cells init_state)(0 := 2, 1 := 2)\<rparr>) 1 = 2
   \<and> cells (init_state\<lparr>cells := (cells init_state)(0 := 2, 1 := 2)\<rparr>) 2 = 0"
proof -
  let ?s1 = "init_state\<lparr>cells := (cells init_state)(0 := 2)\<rparr>"
  let ?s2 = "init_state\<lparr>cells := (cells init_state)(0 := 2, 1 := 2)\<rparr>"
  let ?ps = "[rank_CaptureStaticValue 0, rank_CaptureStaticValue 1]"
  let ?ss = "[init_state, ?s1, ?s2]"
  have h1: "dyn_cast_LinalgOp example_ir 3 = Some (3, reduction_info)"
    by (simp add: dyn_cast_LinalgOp_def example_ir_def)
  have h2: "predicates four_step_matcher
       = ?ps @ rank_NumGreaterEqualTo 3 # [rank_CaptureStaticValue 2]"
    by (simp add: four_step_matcher_def)
  have h3: "length ?ss = Suc (length ?ps)" by simp
  have h4: "?ss ! 0 = init_state" by simp
  have h5: "\<forall>i < length ?ps.
      (?ps ! i) example_ir (3, reduction_info) (?ss ! i) = Inr (True, ?ss ! Suc i)"
    by (simp add: All_less_Suc rank_CaptureStaticValue_def getNumLoops_def reduction_info_def)
  have h6: "rank_NumGreaterEqualTo 3 example_ir (3, reduction_info) (?ss ! length ?ps)
       = Inr (False, ?s2)"
    by (simp add: rank_NumGreaterEqualTo_def getNumLoops_def reduction_info_def)
  have c: "cells ?s2 0 = 2" "cells ?s2 1 = 2" "cells ?s2 2 = 0"
    by (simp_all add: init_state_def)
  from match_short_circuit [OF h1 h2 h3 h4 h5 h6] c show ?thesis by blast
qed

section \<open>The captured slot after a failed match\<close>

lemma all_of_frame:
  assumes "\<forall>fn \<in> set ps. \<forall>s r s'. fn g l s = Inr (r, s') \<longrightarrow> Q s' = Q s"
    and "all_of ps g l st = Inr (r, st')"
  shows "Q st' = Q st"
  using assms
proof (induction ps arbitrary: st)
  case Nil
  then show ?case by simp
next
  case (Cons fn ps)
  from Cons.prems(2) obtain b s1 where fn: "fn g l st = Inr (b, s1)"
    by (auto split: sum.splits)
  from Cons.prems(1) fn have q1: "Q s1 = Q st" by auto
  show ?case
  proof (cases b)
    case True
    with Cons.prems(2) fn have "all_of ps g l s1 = Inr (r, st')" by simp
    with Cons.IH [of s1] Cons.prems(1) have "Q st' = Q s1" by simp
    with q1 show ?thesis by simp
  next
    case False
    with Cons.prems(2) fn have "st' = s1" by simp
    with q1 show ?thesis by simp
  qed
qed

text \<open>
  C7, as the code has it. \<open>match\<close> writes the captured slot only on success. When it
  returns false and no predicate of the matcher writes the matcher's own slot, the slot
  holds after the call what it held before: it is left untouched, not reset.
\<close>

theorem match_failure_leaves_captured:
  assumes "match m g op st = Inr (False, st')"
    and "\<forall>fn \<in> set (predicates m). \<forall>l s r s'.
           fn g l s = Inr (r, s') \<longrightarrow> captured s' (self m) = captured s (self m)"
  shows "captured st' (self m) = captured st (self m)"
proof (cases "dyn_cast_LinalgOp g op")
  case None
  with assms(1) show ?thesis by (simp add: match_def)
next
  case (Some l)
  with assms(1) have run: "all_of (predicates m) g l st = Inr (False, st')"
    by (auto simp: match_def split: sum.splits prod.splits if_splits)
  from assms(2) have "\<forall>fn \<in> set (predicates m). \<forall>s r s'.
           fn g l s = Inr (r, s') \<longrightarrow> captured s' (self m) = captured s (self m)"
    by blast
  from all_of_frame [where Q = "\<lambda>s. captured s (self m)", OF this run] show ?thesis .
qed

text \<open>
  The example: after the reduction was captured, the three-step matcher runs on it again
  from that state; its first predicate writes cell 0, its second fails, and the slot still
  holds the reduction.
\<close>

theorem match_failure_leaves_captured_witness:
  "match three_step_matcher example_ir 3 stale_state
     = Inr (False, stale_state\<lparr>cells := (cells stale_state)(0 := 2)\<rparr>)
   \<and> captured (stale_state\<lparr>cells := (cells stale_state)(0 := 2)\<rparr>) (self three_step_matcher)
     = captured stale_state (self three_step_matcher)
   \<and> captured stale_state (self three_step_matcher) = Some 3"
proof -
  have h1: "match three_step_matcher example_ir 3 stale_state
     = Inr (False, stale_state\<lparr>cells := (cells stale_state)(0 := 2)\<rparr>)"
    by (simp add: match_def dyn_cast_LinalgOp_def example_ir_def three_step_matcher_def
      rank_NumGreaterEqualTo_def rank_CaptureStaticValue_def getNumLoops_def reduction_info_def)
  have h2: "\<forall>fn \<in> set (predicates three_step_matcher). \<forall>l s r s'.
           fn example_ir l s = Inr (r, s')
           \<longrightarrow> captured s' (self three_step_matcher) = captured s (self three_step_matcher)"
    by (auto simp: three_step_matcher_def rank_NumGreaterEqualTo_def
          rank_CaptureStaticValue_def)
  have h3: "captured stale_state (self three_step_matcher) = Some 3"
    by (simp add: stale_state_def three_step_matcher_def)
  from match_failure_leaves_captured [OF h1 h2]
  have c: "captured (stale_state\<lparr>cells := (cells stale_state)(0 := 2)\<rparr>)
             (self three_step_matcher)
           = captured stale_state (self three_step_matcher)" .
  from h1 c h3 show ?thesis by blast
qed

text \<open>
  C7 as stated does not hold. A matcher whose slot is empty matches the reduction
  (operation 3) and then fails on the fill (operation 2, rank 1): after the failed call
  the slot still reads operation 3, the node of the earlier success.
\<close>

theorem match_failure_stale_capture:
  "captured init_state (self rank2_matcher) = None
   \<and> match rank2_matcher example_ir 3 init_state = Inr (True, stale_state)
   \<and> match rank2_matcher example_ir 2 stale_state = Inr (False, stale_state)
   \<and> captured stale_state (self rank2_matcher) = Some 3"
  by (simp add: match_def dyn_cast_LinalgOp_def example_ir_def rank2_matcher_def
      rank_NumGreaterEqualTo_def getNumLoops_def reduction_info_def fill_info_def
      stale_state_def init_state_def)

section \<open>Recursive operand and output predicates\<close>

text \<open>
  C2. For a position that is in range after normalisation, the input (output) predicate
  returns the optional flag, with the state unchanged, when the operand has no defining
  operation; otherwise it runs the nested matcher, whatever the flag, keeps the state the
  nested matcher leaves, and returns the nested result or the optional flag.
\<close>

theorem recursive_operand_match:
  "(0 \<le> ip \<and> ip < getNumDpsInputs l
      \<and> ip = (if position \<ge> 0 then position else getNumDpsInputs l + position)
    \<longrightarrow> addInputMatcher position matcher optional g l st
        = (case getDefiningOp (get (dpsInputs (snd l) ! nat ip)) of
             None \<Rightarrow> Inr (optional, st)
           | Some definingOp \<Rightarrow>
               (case matcher g definingOp st of
                  Inl e \<Rightarrow> Inl e
                | Inr (nestedMatch, st') \<Rightarrow> Inr (nestedMatch \<or> optional, st'))))
   \<and> (0 \<le> p \<and> p < getNumDpsInits l
      \<and> p = (if position \<ge> 0 then position else getNumDpsInits l + position)
    \<longrightarrow> addOutputMatcher position matcher optional g l st
        = (case getDefiningOp (get (dpsInits (snd l) ! nat p)) of
             None \<Rightarrow> Inr (optional, st)
           | Some definingOp \<Rightarrow>
               (case matcher g definingOp st of
                  Inl e \<Rightarrow> Inl e
                | Inr (nestedMatch, st') \<Rightarrow> Inr (nestedMatch \<or> optional, st'))))"
  by (auto simp: addInputMatcher_def addOutputMatcher_def at_def Let_def
        getNumDpsInputs_def getNumDpsInits_def split: option.splits sum.splits)

text \<open>
  The example: the input of the reduction is a block argument, so the optional predicate
  returns true at once. Its init is produced by the fill, on which the nested matcher
  writes cell 7 and then fails; the optional predicate returns true and cell 7 stays written.
\<close>

theorem recursive_operand_match_witness:
  "addInputMatcher 0 (match capture_then_fail_matcher) True example_ir (3, reduction_info)
      init_state = Inr (True, init_state)
   \<and> getDefiningOp (get (dpsInits reduction_info ! 0)) = Some 2
   \<and> match capture_then_fail_matcher example_ir 2 init_state
       = Inr (False, init_state\<lparr>cells := (cells init_state)(7 := 1)\<rparr>)
   \<and> addOutputMatcher 0 (match capture_then_fail_matcher) True example_ir
        (3, reduction_info) init_state
       = Inr (True, init_state\<lparr>cells := (cells init_state)(7 := 1)\<rparr>)"
proof -
  have i: "getDefiningOp (get (dpsInputs (snd (3, reduction_info)) ! nat 0)) = None"
    by (simp add: reduction_info_def)
  have o: "getDefiningOp (get (dpsInits (snd (3, reduction_info)) ! nat 0)) = Some 2"
    by (simp add: reduction_info_def)
  have n: "match capture_then_fail_matcher example_ir 2 init_state
       = Inr (False, init_state\<lparr>cells := (cells init_state)(7 := 1)\<rparr>)"
    by (simp add: match_def dyn_cast_LinalgOp_def example_ir_def capture_then_fail_matcher_def
          rank_CaptureStaticValue_def rank_NumGreaterEqualTo_def getNumLoops_def fill_info_def)
  have r: "(0::int) \<le> 0 \<and> 0 < getNumDpsInputs (3, reduction_info)
           \<and> 0 = (if (0::int) \<ge> 0 then 0 else getNumDpsInputs (3, reduction_info) + 0)"
    "(0::int) \<le> 0 \<and> 0 < getNumDpsInits (3, reduction_info)
           \<and> 0 = (if (0::int) \<ge> 0 then 0 else getNumDpsInits (3, reduction_info) + 0)"
    by (simp_all add: getNumDpsInputs_def getNumDpsInits_def reduction_info_def)
  note inst = recursive_operand_match
         [where ip = 0 and p = 0 and position = 0 and l = "(3, reduction_info)"
            and matcher = "match capture_then_fail_matcher" and optional = True
            and g = example_ir and st = init_state]
  from inst r(1) have a: "addInputMatcher 0 (match capture_then_fail_matcher) True example_ir
      (3, reduction_info) init_state = Inr (True, init_state)"
    by (simp only: i option.case) simp
  from inst r(2) have b: "addOutputMatcher 0 (match capture_then_fail_matcher) True example_ir
        (3, reduction_info) init_state
       = Inr (True, init_state\<lparr>cells := (cells init_state)(7 := 1)\<rparr>)"
    by (simp only: o n option.case sum.case prod.case) simp
  from a b o n show ?thesis by simp
qed

section \<open>All tilable operations captured\<close>

lemma collectCaptured_fold:
  "fold (\<lambda>nestedM matched. case captured st nestedM of None \<Rightarrow> matched
            | Some c \<Rightarrow> insert c matched) ms S
   = S \<union> {c. \<exists>m \<in> set ms. captured st m = Some c}"
  by (induction ms arbitrary: S) (auto split: option.splits)

lemma collectCaptured_set:
  "collectCaptured ms st = {c. \<exists>m \<in> set ms. captured st m = Some c}"
  by (simp add: collectCaptured_def collectCaptured_fold)

text \<open>
  C3. \<open>checkAllTilableMatched\<close> is false for a null parent. Otherwise it is true exactly
  when the number of tilable operations under the parent equals the size of the set that
  holds the root operation and every node captured by a matcher of the list. If it is true
  and one more tilable operation is put under the parent, it becomes false.
\<close>

theorem checkAllTilableMatched_exhaustive:
  "\<not> checkAllTilableMatched g None l ms st
   \<and> (checkAllTilableMatched g (Some p) l ms st
        \<longleftrightarrow> length (filter (isTilingInterface g) (walk g p))
             = card (insert (fst l) {c. \<exists>m \<in> set ms. captured st m = Some c}))
   \<and> (checkAllTilableMatched g (Some p) l ms st
        \<and> walk g p = xs @ ys \<and> walk g' p = xs @ x # ys \<and> isTilingInterface g' x
        \<and> (\<forall>y \<in> set (xs @ ys). isTilingInterface g' y = isTilingInterface g y)
        \<longrightarrow> \<not> checkAllTilableMatched g' (Some p) l ms st)"
proof -
  have a: "\<not> checkAllTilableMatched g None l ms st"
    by (simp add: checkAllTilableMatched_def)
  have b: "\<And>h. checkAllTilableMatched h (Some p) l ms st
        \<longleftrightarrow> length (filter (isTilingInterface h) (walk h p))
             = card (insert (fst l) {c. \<exists>m \<in> set ms. captured st m = Some c})"
    by (simp add: checkAllTilableMatched_def collectCaptured_set Let_def)
  have c: "\<not> checkAllTilableMatched g' (Some p) l ms st"
    if t: "checkAllTilableMatched g (Some p) l ms st"
      and w: "walk g p = xs @ ys" and w': "walk g' p = xs @ x # ys"
      and x: "isTilingInterface g' x"
      and same: "\<forall>y \<in> set (xs @ ys). isTilingInterface g' y = isTilingInterface g y"
  proof -
    from same have "filter (isTilingInterface g') xs = filter (isTilingInterface g) xs"
      and "filter (isTilingInterface g') ys = filter (isTilingInterface g) ys"
      by (auto intro: filter_cong)
    with w w' x have "length (filter (isTilingInterface g') (walk g' p))
        = Suc (length (filter (isTilingInterface g) (walk g p)))"
      by simp
    with t show ?thesis by (simp add: b)
  qed
  from a b [of g] c show ?thesis by blast
qed

text \<open>
  The example: the function holds two tilable operations, the fill and the reduction, and
  the fill is captured; with a third tilable operation in the body the check fails.
\<close>

theorem checkAllTilableMatched_exhaustive_witness:
  "checkAllTilableMatched example_ir (Some 0) (3, reduction_info) [0, 9] exhaustive_state
   \<and> walk example_ir 0 = [5, 1, 2] @ [3, 4, 0]
   \<and> walk example_ir_extra 0 = [5, 1, 2] @ 6 # [3, 4, 0]
   \<and> isTilingInterface example_ir_extra 6
   \<and> \<not> checkAllTilableMatched example_ir_extra (Some 0) (3, reduction_info) [0, 9]
         exhaustive_state"
proof -
  have t: "checkAllTilableMatched example_ir (Some 0) (3, reduction_info) [0, 9]
             exhaustive_state"
    by (simp add: checkAllTilableMatched_def collectCaptured_def example_ir_def
          exhaustive_state_def init_state_def)
  have w: "walk example_ir 0 = [5, 1, 2] @ [3, 4, 0]"
    by (simp add: example_ir_def)
  have w': "walk example_ir_extra 0 = [5, 1, 2] @ 6 # [3, 4, 0]"
    by (simp add: example_ir_extra_def)
  have x: "isTilingInterface example_ir_extra 6"
    by (simp add: example_ir_extra_def)
  have same: "\<forall>y \<in> set ([5, 1, 2] @ [3, 4, 0]).
         isTilingInterface example_ir_extra y = isTilingInterface example_ir y"
    by (simp add: example_ir_extra_def example_ir_def)
  from checkAllTilableMatched_exhaustive
         [where g = example_ir and g' = example_ir_extra and p = 0
            and l = "(3, reduction_info)" and ms = "[0, 9]" and st = exhaustive_state
            and xs = "[5, 1, 2]" and ys = "[3, 4, 0]" and x = 6]
       t w w' x same
  show ?thesis by blast
qed

section \<open>Dimension indices below the range\<close>

text \<open>
  C4 fails for the divisibility and the capture predicate. On the reduction (rank 2) the
  index \<open>-3\<close> normalises to \<open>-1\<close>. The two list predicates test \<open>< 0\<close> and return
  false; \<open>dim(int64_t, DivisibleBy)\<close> and \<open>dim(int64_t, CaptureStaticValue)\<close> test only
  the upper bound and index the loop ranges at \<open>-1\<close>.
\<close>

theorem dim_index_below_range:
  "getNumLoops (3, reduction_info) = 2
   \<and> dim_ShapeKind [- 3] Static example_ir (3, reduction_info) init_state
       = Inr (False, init_state)
   \<and> dim_IteratorType [- 3] parallel example_ir (3, reduction_info) init_state
       = Inr (False, init_state)
   \<and> dim_DivisibleBy (- 3) 2 example_ir (3, reduction_info) init_state = Inl OutOfBounds
   \<and> dim_CaptureStaticValue (- 3) 0 example_ir (3, reduction_info) init_state
       = Inl OutOfBounds"
  by (simp add: dim_DivisibleBy_def dim_CaptureStaticValue_def dim_ShapeKind_def
        dim_IteratorType_def getNumLoops_def getStaticLoopRanges_def reduction_info_def at_def)

section \<open>Excluded dimensions outside the range\<close>









section \<open>Forward traversal\<close>

text \<open>
  The \<open>do\<close> body of the forward traversal exits only from inside the range-for, so a
  value without uses never leaves the loop.
\<close>

lemma traverseSubsetsForwardAnyUse_Some_uses:
  assumes "traverseSubsetsForwardAnyUse g v = Some u"
  shows "getUses g v \<noteq> []"
proof (rule traverseSubsetsForwardAnyUse.raw_induct
         [where P = "\<lambda>g v u. getUses g v \<noteq> []", OF _ assms])
  fix tr :: "ir \<Rightarrow> val \<Rightarrow> op_id option" and g v u
  assume IH: "\<And>g v u. tr g v = Some u \<Longrightarrow> getUses g v \<noteq> []"
    and eq: "(case scanUses g (getUses g v) v of Inl user \<Rightarrow> Some user
              | Inr v' \<Rightarrow> tr g v') = Some u"
  show "getUses g v \<noteq> []"
  proof
    assume e: "getUses g v = []"
    with eq have "tr g v = Some u" by simp
    from IH [OF this] e show False by simp
  qed
qed

lemma traverseSubsetsForwardAnyUse_no_uses:
  "getUses g v = [] \<Longrightarrow> traverseSubsetsForwardAnyUse g v = None"
  using traverseSubsetsForwardAnyUse_Some_uses [of g v] by (cases "traverseSubsetsForwardAnyUse g v") auto

text \<open>
  C5 fails. In the first payload the loop's only output block argument is tied to the use
  of the value, and that argument is used by operation 12; the traversal returns the loop
  (operation 11) instead of continuing from the argument. In the second payload it continues
  from the block argument tied to the other operand and returns that argument's user
  (operation 13). The \<open>find_if\<close> predicate selects the first output block argument whose
  tied operand is not the use.
\<close>

theorem forward_traversal_untied_output:
  "getUses loop_ir (OpResult 10 0) = [(11, 1)]
   \<and> opKind loop_ir 11 = ForeachThreadOp
   \<and> getOutputBlockArguments loop_ir 11 = [BlockArgument 1 1]
   \<and> getTiedOpOperand loop_ir 11 (BlockArgument 1 1) = Some (11, 1)
   \<and> traverseSubsetsForwardAnyUse loop_ir (BlockArgument 1 1) = Some 12
   \<and> traverseSubsetsForwardAnyUse loop_ir (OpResult 10 0) = Some 11
   \<and> getTiedOpOperand loop2_ir 11 (BlockArgument 1 2) = Some (11, 2)
   \<and> traverseSubsetsForwardAnyUse loop2_ir (OpResult 10 0) = Some 13"
proof -
  have a: "traverseSubsetsForwardAnyUse loop_ir (BlockArgument 1 1) = Some 12"
    by (subst traverseSubsetsForwardAnyUse.simps) (simp add: loop_ir_def)
  have b: "traverseSubsetsForwardAnyUse loop_ir (OpResult 10 0) = Some 11"
    by (subst traverseSubsetsForwardAnyUse.simps) (simp add: loop_ir_def)
  have c1: "scanUses loop2_ir (getUses loop2_ir (OpResult 10 0)) (OpResult 10 0)
            = Inr (BlockArgument 1 2)"
    by (simp add: loop2_ir_def loop_ir_def)
  have c2: "scanUses loop2_ir (getUses loop2_ir (BlockArgument 1 2)) (BlockArgument 1 2)
            = Inl 13"
    by (simp add: loop2_ir_def loop_ir_def)
  have c: "traverseSubsetsForwardAnyUse loop2_ir (OpResult 10 0) = Some 13"
    by (subst traverseSubsetsForwardAnyUse.simps, simp only: c1 sum.case,
        subst traverseSubsetsForwardAnyUse.simps, simp only: c2 sum.case)
  have d: "getUses loop_ir (OpResult 10 0) = [(11, 1)]"
      "opKind loop_ir 11 = ForeachThreadOp"
      "getOutputBlockArguments loop_ir 11 = [BlockArgument 1 1]"
      "getTiedOpOperand loop_ir 11 (BlockArgument 1 1) = Some (11, 1)"
      "getTiedOpOperand loop2_ir 11 (BlockArgument 1 2) = Some (11, 2)"
    by (simp_all add: loop2_ir_def loop_ir_def)
  from a b c d show ?thesis by blast
qed

text \<open>
  C8 fails. When the result of the reduction has no use, the forward traversal does not
  return, and neither does the result predicate built on it.
\<close>

theorem forward_traversal_unused_value:
  "getUses example_ir_unused (OpResult 3 0) = []
   \<and> traverseSubsetsForwardAnyUse example_ir_unused (OpResult 3 0) = None
   \<and> result_HasAnyUse_SubsetOf 0 rank2_matcher True example_ir_unused (3, reduction_info)
        init_state = Inl NonTermination"
proof -
  have u: "getUses example_ir_unused (OpResult 3 0) = []"
    by (simp add: example_ir_unused_def)
  have t: "traverseSubsetsForwardAnyUse example_ir_unused (OpResult 3 0) = None"
    by (rule traverseSubsetsForwardAnyUse_no_uses) (rule u)
  have r: "result_HasAnyUse_SubsetOf 0 rank2_matcher True example_ir_unused (3, reduction_info)
        init_state = Inl NonTermination"
  proof -
    have nr: "getNumResults example_ir_unused 3 = 1"
      by (simp add: example_ir_unused_def example_ir_def)
    show ?thesis
      by (simp add: result_HasAnyUse_SubsetOf_def getResult_def nr t)
  qed
  from u t r show ?thesis by blast
qed

section \<open>Backward traversal\<close>

text \<open>
  The backward traversal returns (an operation or a failed assertion) on every payload in
  which each step through an \<open>extract_slice\<close> source or a tied loop operand decreases
  a rank of the values, as in an acyclic def-use graph.
\<close>

lemma traverseSubsetsBackwards_returns:
  fixes rk :: "val \<Rightarrow> nat"
  assumes slice: "\<And>op n. opKind g op = ExtractSliceOp
                    \<Longrightarrow> rk (getSource g op) < rk (OpResult op n)"
    and loop: "\<And>b n blockOp tied.
                 \<lbrakk>getParentOp g b = Some blockOp; opKind g blockOp = ForeachThreadOp;
                  getTiedOpOperand g blockOp (BlockArgument b n) = Some tied\<rbrakk>
                 \<Longrightarrow> rk (operandGet g tied) < rk (BlockArgument b n)"
  shows "\<exists>r. traverseSubsetsBackwards g v = Some r"
proof (induction "rk v" arbitrary: v rule: less_induct)
  case less
  show ?case
  proof (cases v)
    case (OpResult op n)
    show ?thesis
    proof (cases "opKind g op = ExtractSliceOp")
      case True
      from slice [OF True, of n] OpResult have "rk (getSource g op) < rk v" by simp
      from less [OF this] obtain r where "traverseSubsetsBackwards g (getSource g op) = Some r"
        by blast
      with OpResult True show ?thesis
        by (subst traverseSubsetsBackwards.simps) simp
    next
      case False
      with OpResult show ?thesis
        by (subst traverseSubsetsBackwards.simps) simp
    qed
  next
    case (BlockArgument b n)
    show ?thesis
    proof (cases "getParentOp g b")
      case None
      with BlockArgument show ?thesis
        by (subst traverseSubsetsBackwards.simps) simp
    next
      case (Some blockOp)
      show ?thesis
      proof (cases "opKind g blockOp = ForeachThreadOp")
        case False
        with BlockArgument Some show ?thesis
          by (subst traverseSubsetsBackwards.simps) simp
      next
        case True
        show ?thesis
        proof (cases "getTiedOpOperand g blockOp (BlockArgument b n)")
          case None
          with BlockArgument Some True show ?thesis
            by (subst traverseSubsetsBackwards.simps) simp
        next
          case tied: (Some tied)
          from loop [OF Some True tied] BlockArgument have "rk (operandGet g tied) < rk v"
            by simp
          from less [OF this] obtain r
            where "traverseSubsetsBackwards g (operandGet g tied) = Some r" by blast
          with BlockArgument Some True tied show ?thesis
            by (subst traverseSubsetsBackwards.simps) simp
        qed
      qed
    qed
  qed
qed

section \<open>Output operand produced by a subset\<close>

text \<open>
  C6 fails. \<open>output(int64_t, SubsetOf)\<close> bounds the position by the number of inputs.
  Operation 20 (no input, one init produced by a fill) is rejected at position 0 although
  the sibling \<open>addOutputMatcher\<close> accepts it; on operation 22 (two inputs, one init)
  positions 1 and \<open>-1\<close> pass the check and index the inits out of range.
\<close>

theorem output_SubsetOf_bounds_by_inputs:
  "getNumDpsInputs (20, no_input_info) = 0 \<and> getNumDpsInits (20, no_input_info) = 1
   \<and> output_SubsetOf 0 fill_matcher operands_ir (20, no_input_info) init_state
       = Inr (False, init_state)
   \<and> addOutputMatcher 0 (match fill_matcher) False operands_ir (20, no_input_info) init_state
       = Inr (True, init_state\<lparr>captured := (captured init_state)(9 := Some 21)\<rparr>)
   \<and> getNumDpsInputs (22, two_input_info) = 2 \<and> getNumDpsInits (22, two_input_info) = 1
   \<and> output_SubsetOf 1 fill_matcher operands_ir (22, two_input_info) init_state
       = Inl OutOfBounds
   \<and> output_SubsetOf (- 1) fill_matcher operands_ir (22, two_input_info) init_state
       = Inl OutOfBounds
   \<and> addOutputMatcher (- 1) (match fill_matcher) False operands_ir (22, two_input_info)
        init_state
       = Inr (True, init_state\<lparr>captured := (captured init_state)(9 := Some 21)\<rparr>)"
  by (simp add: output_SubsetOf_def addOutputMatcher_def getNumDpsInputs_def getNumDpsInits_def
        no_input_info_def two_input_info_def at_def match_def dyn_cast_LinalgOp_def
        operands_ir_def fill_matcher_def m_StructuredOp_isa_def m_StructuredOp_def push_back_def
        isa_kind_def fill_info_def example_ir_def)

section \<open>The reduction matcher on a simple reduction\<close>

lemma match_other_kind:
  assumes "predicates m = isa_kind kinds # rest"
    and "linalgInfo g u = None \<or> opKind g u \<notin> set kinds"
  shows "match m g u st = Inr (False, st)"
proof (cases "linalgInfo g u")
  case None
  then show ?thesis by (simp add: match_def dyn_cast_LinalgOp_def)
next
  case (Some info)
  with assms(2) have "opKind g u \<notin> set kinds" by simp
  with Some assms(1) show ?thesis
    by (simp add: match_def dyn_cast_LinalgOp_def isa_kind_def)
qed

lemma any_of_all_fail:
  "\<forall>u \<in> set us. \<forall>s. matcher g u s = Inr (False, s)
   \<Longrightarrow> any_of matcher g us st = Inr (False, st)"
  by (induction us) simp_all

lemma makeReductionMatcher_state:
  "snd (makeReductionMatcher r f l t c captures st0)
   = st0\<lparr>captured := (captured st0)(r := None, f := None, l := None, t := None)\<rparr>"
  by (simp add: makeReductionMatcher_def Let_def)

lemma makeReductionMatcher_leading:
  "predicates (leadingM (fst (makeReductionMatcher r f l t c captures st0)))
   = isa_kind [GenericOp] #
     [dim_AllDims_IteratorType parallel,
      input_AllOperands_IsProjectedPermutation,
      output_AllOperands_IsPermutation,
      output_NumEqualsTo 1,
      rank_CaptureStaticValue (maybeLeadingRank captures)]"
  by (simp add: makeReductionMatcher_def Let_def chain_def push_back_def
        m_StructuredOp_def m_StructuredOp_isa_def)

lemma makeReductionMatcher_trailing:
  "predicates (trailingM (fst (makeReductionMatcher r f l t c captures st0)))
   = isa_kind [GenericOp] #
     [dim_AllDims_IteratorType parallel,
      input_AllOperands_IsProjectedPermutation,
      output_AllOperands_IsPermutation,
      output_NumEqualsTo 1,
      rank_CaptureStaticValue (maybeLeadingRank captures),
      rank_CaptureStaticValue (maybeTrailingRank captures)]"
  by (simp add: makeReductionMatcher_def Let_def chain_def push_back_def
        m_StructuredOp_def m_StructuredOp_isa_def)

lemma makeReductionMatcher_reduction:
  "reductionM (fst (makeReductionMatcher r f l t c captures st0)) =
     \<lparr>self = r,
      predicates =
        [rank_NumGreaterEqualTo 2,
         rank_NumLowerEqualTo 4,
         rank_CaptureStaticValue (reductionRank captures),
         dim_IteratorType [- 1] reduction,
         dim_CaptureStaticValue (- 2) (mostMinorParallelDimensionSize captures),
         dim_CaptureStaticValue (- 1) (reductionDimensionSize captures),
         dim_AllDimsExcept [- 1] parallel,
         input_NumEqualsTo 1,
         input_AllOperands_IsProjectedPermutation,
         output_NumEqualsTo 1,
         output_AllOperands_IsProjectedPermutation,
         output_ElementTypeBitWidth 0 32,
         output_SingleCombinerReduction 0,
         output_NumEqualsTo 1,
         addOutputMatcher 0 (match (m_StructuredOp_isa f [FillOp])) False,
         addInputMatcher 0 (match (leadingM (fst (makeReductionMatcher r f l t c captures st0)))) True,
         addResultMatcher 0 (match (trailingM (fst (makeReductionMatcher r f l t c captures st0)))) True,
         (\<lambda>g linalgOp st.
            Inr (checkAllTilableMatched g (getParentOfType_FuncOp g (fst linalgOp)) linalgOp
                   [r, f, l, t] st, st))],
      nested = [f, l, t]\<rparr>"
  by (simp add: makeReductionMatcher_def Let_def chain_def push_back_def
        m_StructuredOp_def m_StructuredOp_isa_def OptionalMatch_def
        input_Matcher_def output_Matcher_def result_HasAnyUse_Matcher_def
        recordNestedMatcher_def allTilableOpsCaptured_def)

text \<open>
  On an op that meets the conditions below, every predicate of the reduction matcher
  before the exhaustiveness check passes; the run ends with the verdict of that check, in
  the state that holds the three captured values and the captured fill.
\<close>

lemma makeReductionMatcher_run:
  assumes dims: "loops info = [(128, parallel), (64, reduction)]"
    and ins: "dpsInputs info = [inp]" "isProjectedPermutation inp"
    and no_leading: "\<forall>d. getDefiningOp (get inp) = Some d
                        \<longrightarrow> linalgInfo g d = None \<or> opKind g d \<noteq> GenericOp"
    and outs: "dpsInits info = [out]" "isProjectedPermutation out"
      "elementBitWidth out = Some 32"
    and comb: "matchReduction info 0 = Some 1"
    and fill: "get out = OpResult fillOp k" "linalgInfo g fillOp = Some finfo"
      "opKind g fillOp = FillOp"
    and res: "0 < getNumResults g op"
    and no_trailing: "\<forall>u \<in> set (getUsers g (OpResult op 0)).
                         linalgInfo g u = None \<or> opKind g u \<noteq> GenericOp"
    and st: "st = snd (makeReductionMatcher r f l t c captures st0)"
    and s4: "s4 = st\<lparr>cells := (cells st)(reductionRank captures := 2,
                                         mostMinorParallelDimensionSize captures := 128,
                                         reductionDimensionSize captures := 64),
                     captured := (captured st)(f := Some fillOp)\<rparr>"
  shows "all_of (predicates (reductionM (fst (makeReductionMatcher r f l t c captures st0))))
           g (op, info) st
         = Inr (checkAllTilableMatched g (getParentOfType_FuncOp g op) (op, info)
                  [r, f, l, t] s4, s4)"
proof -
  let ?l = "(op, info)"
  let ?mk = "makeReductionMatcher r f l t c captures st0"
  define s1 where "s1 = st\<lparr>cells := (cells st)(reductionRank captures := 2)\<rparr>"
  define s2 where
    "s2 = s1\<lparr>cells := (cells s1)(mostMinorParallelDimensionSize captures := 128)\<rparr>"
  define s3 where "s3 = s2\<lparr>cells := (cells s2)(reductionDimensionSize captures := 64)\<rparr>"
  have s4': "s4 = s3\<lparr>captured := (captured s3)(f := Some fillOp)\<rparr>"
    by (simp add: s4 s3_def s2_def s1_def)
  have n: "getNumLoops ?l = 2" using dims by (simp add: getNumLoops_def)
  have p1: "rank_NumGreaterEqualTo 2 g ?l s = Inr (True, s)" for s
    by (simp add: rank_NumGreaterEqualTo_def n)
  have p2: "rank_NumLowerEqualTo 4 g ?l s = Inr (True, s)" for s
    by (simp add: rank_NumLowerEqualTo_def n)
  have p3: "rank_CaptureStaticValue (reductionRank captures) g ?l st = Inr (True, s1)"
    by (simp add: rank_CaptureStaticValue_def n s1_def)
  have p4: "dim_IteratorType [- 1] reduction g ?l s = Inr (True, s)" for s
    using dims by (simp add: dim_IteratorType_def n getIteratorTypesArray_def)
  have p5: "dim_CaptureStaticValue (- 2) (mostMinorParallelDimensionSize captures) g ?l s1
            = Inr (True, s2)"
    using dims by (simp add: dim_CaptureStaticValue_def n getStaticLoopRanges_def at_def s2_def)
  have p6: "dim_CaptureStaticValue (- 1) (reductionDimensionSize captures) g ?l s2
            = Inr (True, s3)"
    using dims by (simp add: dim_CaptureStaticValue_def n getStaticLoopRanges_def at_def s3_def)
  have p7: "dim_AllDimsExcept [- 1] parallel g ?l s = Inr (True, s)" for s
    using dims
    by (simp add: dim_AllDimsExcept_def n DenseSet_insert_def getEmptyKey_def
          getTombstoneKey_def getIteratorTypesArray_def enumerate_eq_zip upt_rec)
  have p8: "input_NumEqualsTo (Suc 0) g ?l s = Inr (True, s)" for s
    using ins by (simp add: input_NumEqualsTo_def getNumDpsInputs_def)
  have p9: "input_AllOperands_IsProjectedPermutation g ?l s = Inr (True, s)" for s
    using ins by (simp add: input_AllOperands_IsProjectedPermutation_def)
  have p10: "output_NumEqualsTo (Suc 0) g ?l s = Inr (True, s)" for s
    using outs by (simp add: output_NumEqualsTo_def getNumDpsInits_def)
  have p11: "output_AllOperands_IsProjectedPermutation g ?l s = Inr (True, s)" for s
    using outs by (simp add: output_AllOperands_IsProjectedPermutation_def)
  have p12: "output_ElementTypeBitWidth 0 32 g ?l s = Inr (True, s)" for s
    using outs by (simp add: output_ElementTypeBitWidth_def getNumDpsInits_def at_def)
  have p13: "output_SingleCombinerReduction 0 g ?l s = Inr (True, s)" for s
    using outs comb by (simp add: output_SingleCombinerReduction_def getNumDpsInits_def)
  have p15: "addOutputMatcher 0 (match (m_StructuredOp_isa f [FillOp])) False g ?l s3
             = Inr (True, s4)"
    using outs fill
    by (simp add: addOutputMatcher_def getNumDpsInits_def at_def match_def
          dyn_cast_LinalgOp_def m_StructuredOp_isa_def m_StructuredOp_def push_back_def
          isa_kind_def s4')
  have p16: "addInputMatcher 0 (match (leadingM (fst ?mk))) True g ?l s = Inr (True, s)" for s
  proof (cases "getDefiningOp (get inp)")
    case None
    with ins show ?thesis
      by (simp add: addInputMatcher_def getNumDpsInputs_def at_def)
  next
    case (Some d)
    with no_leading have "linalgInfo g d = None \<or> opKind g d \<notin> set [GenericOp]" by simp
    from match_other_kind [OF makeReductionMatcher_leading this]
    have "match (leadingM (fst ?mk)) g d s = Inr (False, s)" .
    with ins Some show ?thesis
      by (simp add: addInputMatcher_def getNumDpsInputs_def at_def)
  qed
  have users: "\<forall>u \<in> set (getUsers g (OpResult op 0)). \<forall>s.
                 match (trailingM (fst ?mk)) g u s = Inr (False, s)"
  proof (intro ballI allI)
    fix u s assume "u \<in> set (getUsers g (OpResult op 0))"
    with no_trailing have "linalgInfo g u = None \<or> opKind g u \<notin> set [GenericOp]" by simp
    from match_other_kind [OF makeReductionMatcher_trailing this]
    show "match (trailingM (fst ?mk)) g u s = Inr (False, s)" .
  qed
  have p17: "addResultMatcher 0 (match (trailingM (fst ?mk))) True g ?l s = Inr (True, s)" for s
    using res any_of_all_fail [where matcher = "match (trailingM (fst ?mk))" and g = g
                                 and us = "getUsers g (OpResult op 0)" and st = s] users
    by (simp add: addResultMatcher_def getResult_def)
  show ?thesis
    by (simp add: makeReductionMatcher_reduction p1 p2 p3 p4 p5 p6 p7 p8 p9 p10 p11 p12 p13
          p15 p16 p17)
qed

text \<open>
  C9, as the code has it. Let \<open>op\<close> be a structured op with loops 128 (parallel) and 64
  (reduction); one input and one 32-bit init, both with projected permutation maps; the
  init the result of a fill (another operation) and populated by one combiner; a result 0;
  neither the producer of the input nor a user of result 0 a structured \<open>linalg.generic\<close>
  (no leading or trailing elementwise op); inside a function under which exactly two
  operations are tilable. On the matchers and state that \<open>makeReductionMatcher\<close> returns,
  the reduction matcher returns true and leaves 2, 64 and 128 in the cells
  \<open>reductionRank\<close>, \<open>reductionDimensionSize\<close> and \<open>mostMinorParallelDimensionSize\<close>.
\<close>

theorem makeReductionMatcher_simple_reduction:
  assumes lin: "linalgInfo g op = Some info"
    and dims: "loops info = [(128, parallel), (64, reduction)]"
    and ins: "dpsInputs info = [inp]" "isProjectedPermutation inp"
    and no_leading: "\<forall>d. getDefiningOp (get inp) = Some d
                        \<longrightarrow> linalgInfo g d = None \<or> opKind g d \<noteq> GenericOp"
    and outs: "dpsInits info = [out]" "isProjectedPermutation out"
      "elementBitWidth out = Some 32"
    and comb: "matchReduction info 0 = Some 1"
    and fill: "get out = OpResult fillOp k" "linalgInfo g fillOp = Some finfo"
      "opKind g fillOp = FillOp" "fillOp \<noteq> op"
    and res: "0 < getNumResults g op"
    and no_trailing: "\<forall>u \<in> set (getUsers g (OpResult op 0)).
                         linalgInfo g u = None \<or> opKind g u \<noteq> GenericOp"
    and scope: "getParentOfType_FuncOp g op = Some f"
      "length (filter (isTilingInterface g) (walk g f)) = 2"
    and cs: "distinct [reductionRank captures, reductionDimensionSize captures,
                      mostMinorParallelDimensionSize captures]"
    and mk: "makeReductionMatcher reductionId fillId leadingId trailingId commonId captures st0
               = (ms, st)"
  shows "\<exists>st'. match (reductionM ms) g op st = Inr (True, st')
           \<and> cells st' (reductionRank captures) = 2
           \<and> cells st' (reductionDimensionSize captures) = 64
           \<and> cells st' (mostMinorParallelDimensionSize captures) = 128"
proof -
  let ?mk = "makeReductionMatcher reductionId fillId leadingId trailingId commonId captures st0"
  from mk have ms: "ms = fst ?mk" and st: "st = snd ?mk" by simp_all
  define s4 where
    "s4 = st\<lparr>cells := (cells st)(reductionRank captures := 2,
                                  mostMinorParallelDimensionSize captures := 128,
                                  reductionDimensionSize captures := 64),
              captured := (captured st)(fillId := Some fillOp)\<rparr>"
  have slots: "collectCaptured [reductionId, fillId, leadingId, trailingId] s4 = {fillOp}"
    by (auto simp: collectCaptured_set s4_def st makeReductionMatcher_state)
  have check: "checkAllTilableMatched g (getParentOfType_FuncOp g op) (op, info)
               [reductionId, fillId, leadingId, trailingId] s4"
    using scope fill(4)
    by (simp add: checkAllTilableMatched_def slots)
  from makeReductionMatcher_run
         [OF dims ins no_leading outs comb fill(1) fill(2) fill(3) res no_trailing st s4_def]
       check
  have run: "all_of (predicates (reductionM (fst ?mk))) g (op, info) st = Inr (True, s4)"
    by simp
  have "match (reductionM ms) g op st
        = Inr (True, s4\<lparr>captured := (captured s4)(reductionId := Some op)\<rparr>)"
    using lin run
    by (simp add: match_def dyn_cast_LinalgOp_def ms makeReductionMatcher_reduction)
  moreover from cs have "cells s4 (reductionRank captures) = 2"
    and "cells s4 (reductionDimensionSize captures) = 64"
    and "cells s4 (mostMinorParallelDimensionSize captures) = 128"
    by (auto simp: s4_def)
  ultimately show ?thesis by simp
qed

text \<open>
  The example payload is such a reduction: operation 3, with the fill (operation 2) and the
  enclosing function (operation 0).
\<close>

theorem makeReductionMatcher_simple_reduction_witness:
  "\<exists>st'. match (reductionM (fst (makeReductionMatcher 10 11 12 13 14 example_captures
                                   init_state)))
            example_ir 3
            (snd (makeReductionMatcher 10 11 12 13 14 example_captures init_state))
          = Inr (True, st')
        \<and> cells st' (reductionRank example_captures) = 2
        \<and> cells st' (reductionDimensionSize example_captures) = 64
        \<and> cells st' (mostMinorParallelDimensionSize example_captures) = 128"
proof (rule makeReductionMatcher_simple_reduction
         [where info = reduction_info and fillOp = 2 and k = 0 and finfo = fill_info
            and f = 0 and inp = "hd (dpsInputs reduction_info)"
            and out = "hd (dpsInits reduction_info)"])
  show "linalgInfo example_ir 3 = Some reduction_info"
    by (simp add: example_ir_def)
  show "loops reduction_info = [(128, parallel), (64, reduction)]"
    by (simp add: reduction_info_def)
  show "dpsInputs reduction_info = [hd (dpsInputs reduction_info)]"
    by (simp add: reduction_info_def)
  show "isProjectedPermutation (hd (dpsInputs reduction_info))"
    by (simp add: reduction_info_def)
  show "\<forall>d. getDefiningOp (get (hd (dpsInputs reduction_info))) = Some d
            \<longrightarrow> linalgInfo example_ir d = None \<or> opKind example_ir d \<noteq> GenericOp"
    by (simp add: reduction_info_def)
  show "dpsInits reduction_info = [hd (dpsInits reduction_info)]"
    by (simp add: reduction_info_def)
  show "isProjectedPermutation (hd (dpsInits reduction_info))"
    by (simp add: reduction_info_def)
  show "elementBitWidth (hd (dpsInits reduction_info)) = Some 32"
    by (simp add: reduction_info_def)
  show "matchReduction reduction_info 0 = Some 1"
    by (simp add: reduction_info_def)
  show "get (hd (dpsInits reduction_info)) = OpResult 2 0"
    by (simp add: reduction_info_def)
  show "linalgInfo example_ir 2 = Some fill_info"
    by (simp add: example_ir_def)
  show "opKind example_ir 2 = FillOp"
    by (simp add: example_ir_def)
  show "(2::nat) \<noteq> 3" by simp
  show "0 < getNumResults example_ir 3"
    by (simp add: example_ir_def)
  show "\<forall>u \<in> set (getUsers example_ir (OpResult 3 0)).
          linalgInfo example_ir u = None \<or> opKind example_ir u \<noteq> GenericOp"
    by (simp add: getUsers_def example_ir_def)
  show "getParentOfType_FuncOp example_ir 3 = Some 0"
    by (simp add: example_ir_def)
  show "length (filter (isTilingInterface example_ir) (walk example_ir 0)) = 2"
    by (simp add: example_ir_def)
  show "distinct [reductionRank example_captures, reductionDimensionSize example_captures,
                  mostMinorParallelDimensionSize example_captures]"
    by (simp add: example_captures_def)
  show "makeReductionMatcher 10 11 12 13 14 example_captures init_state
        = (fst (makeReductionMatcher 10 11 12 13 14 example_captures init_state),
           snd (makeReductionMatcher 10 11 12 13 14 example_captures init_state))"
    by simp
qed

text \<open>
  C9 as stated does not hold. In the first payload the function of the example holds one
  more tilable operation (6), which is neither a producer nor a user of the reduction: the
  reduction (operation 3) meets every condition the claim names, all predicates before the
  exhaustiveness check pass and write the three cells, and the matcher returns false. In
  the second payload the input map of the reduction is not a projected permutation, and
  the matcher returns false as well.
\<close>

theorem makeReductionMatcher_scenario_rejected:
  "linalgInfo example_ir_extra 3 = Some reduction_info
   \<and> loops reduction_info = [(128, parallel), (64, reduction)]
   \<and> kDynamic example_ir_extra \<noteq> 128 \<and> kDynamic example_ir_extra \<noteq> 64
   \<and> map elementBitWidth (dpsInputs reduction_info) = [Some 32]
   \<and> map elementBitWidth (dpsInits reduction_info) = [Some 32]
   \<and> map get (dpsInputs reduction_info) = [BlockArgument 0 0]
   \<and> map get (dpsInits reduction_info) = [OpResult 2 0]
   \<and> opKind example_ir_extra 2 = FillOp
   \<and> linalgInfo example_ir_extra 2 = Some fill_info
   \<and> matchReduction reduction_info 0 = Some 1
   \<and> getUsers example_ir_extra (OpResult 3 0) = [4]
   \<and> linalgInfo example_ir_extra 4 = None
   \<and> match (reductionM built_matchers) example_ir_extra 3 built_state
       = Inr (False, fill_captured_state)
   \<and> linalgInfo arbitrary_map_ir 3 = Some arbitrary_map_info
   \<and> loops arbitrary_map_info = [(128, parallel), (64, reduction)]
   \<and> map elementBitWidth (dpsInputs arbitrary_map_info) = [Some 32]
   \<and> dpsInits arbitrary_map_info = dpsInits reduction_info
   \<and> matchReduction arbitrary_map_info 0 = Some 1
   \<and> match (reductionM built_matchers) arbitrary_map_ir 3 built_state
       = Inr (False, cells_written_state)"
proof -
  have facts: "linalgInfo example_ir_extra 3 = Some reduction_info"
    "loops reduction_info = [(128, parallel), (64, reduction)]"
    "kDynamic example_ir_extra \<noteq> 128" "kDynamic example_ir_extra \<noteq> 64"
    "map elementBitWidth (dpsInputs reduction_info) = [Some 32]"
    "map elementBitWidth (dpsInits reduction_info) = [Some 32]"
    "map get (dpsInputs reduction_info) = [BlockArgument 0 0]"
    "map get (dpsInits reduction_info) = [OpResult 2 0]"
    "opKind example_ir_extra 2 = FillOp"
    "linalgInfo example_ir_extra 2 = Some fill_info"
    "matchReduction reduction_info 0 = Some 1"
    "getUsers example_ir_extra (OpResult 3 0) = [4]"
    "linalgInfo example_ir_extra 4 = None"
    "linalgInfo arbitrary_map_ir 3 = Some arbitrary_map_info"
    "loops arbitrary_map_info = [(128, parallel), (64, reduction)]"
    "map elementBitWidth (dpsInputs arbitrary_map_info) = [Some 32]"
    "dpsInits arbitrary_map_info = dpsInits reduction_info"
    "matchReduction arbitrary_map_info 0 = Some 1"
    by (simp_all add: example_ir_extra_def example_ir_def reduction_info_def getUsers_def
          arbitrary_map_ir_def arbitrary_map_info_def)
  have st: "built_state = snd (makeReductionMatcher 10 11 12 13 14 example_captures init_state)"
    by (simp add: built_state_def)
  have s4: "fill_captured_state
      = built_state\<lparr>cells := (cells built_state)(reductionRank example_captures := 2,
                        mostMinorParallelDimensionSize example_captures := 128,
                        reductionDimensionSize example_captures := 64),
                    captured := (captured built_state)(11 := Some 2)\<rparr>"
    by (simp add: fill_captured_state_def cells_written_state_def example_captures_def)
  have run: "all_of (predicates (reductionM built_matchers)) example_ir_extra
               (3, reduction_info) built_state
             = Inr (checkAllTilableMatched example_ir_extra
                      (getParentOfType_FuncOp example_ir_extra 3) (3, reduction_info)
                      [10, 11, 12, 13] fill_captured_state, fill_captured_state)"
    unfolding built_matchers_def
  proof (rule makeReductionMatcher_run
           [where inp = "hd (dpsInputs reduction_info)" and out = "hd (dpsInits reduction_info)"
              and fillOp = 2 and k = 0 and finfo = fill_info])
    show "built_state
          = snd (makeReductionMatcher 10 11 12 13 14 example_captures init_state)"
      by (rule st)
    show "fill_captured_state
      = built_state\<lparr>cells := (cells built_state)(reductionRank example_captures := 2,
                        mostMinorParallelDimensionSize example_captures := 128,
                        reductionDimensionSize example_captures := 64),
                    captured := (captured built_state)(11 := Some 2)\<rparr>"
      by (rule s4)
    show "loops reduction_info = [(128, parallel), (64, reduction)]"
      by (simp add: reduction_info_def)
    show "dpsInputs reduction_info = [hd (dpsInputs reduction_info)]"
      by (simp add: reduction_info_def)
    show "isProjectedPermutation (hd (dpsInputs reduction_info))"
      by (simp add: reduction_info_def)
    show "\<forall>d. getDefiningOp (get (hd (dpsInputs reduction_info))) = Some d
            \<longrightarrow> linalgInfo example_ir_extra d = None \<or> opKind example_ir_extra d \<noteq> GenericOp"
      by (simp add: reduction_info_def)
    show "dpsInits reduction_info = [hd (dpsInits reduction_info)]"
      by (simp add: reduction_info_def)
    show "isProjectedPermutation (hd (dpsInits reduction_info))"
      by (simp add: reduction_info_def)
    show "elementBitWidth (hd (dpsInits reduction_info)) = Some 32"
      by (simp add: reduction_info_def)
    show "matchReduction reduction_info 0 = Some 1"
      by (simp add: reduction_info_def)
    show "get (hd (dpsInits reduction_info)) = OpResult 2 0"
      by (simp add: reduction_info_def)
    show "linalgInfo example_ir_extra 2 = Some fill_info"
      by (simp add: example_ir_extra_def example_ir_def)
    show "opKind example_ir_extra 2 = FillOp"
      by (simp add: example_ir_extra_def example_ir_def)
    show "0 < getNumResults example_ir_extra 3"
      by (simp add: example_ir_extra_def example_ir_def)
    show "\<forall>u \<in> set (getUsers example_ir_extra (OpResult 3 0)).
            linalgInfo example_ir_extra u = None \<or> opKind example_ir_extra u \<noteq> GenericOp"
      by (simp add: getUsers_def example_ir_extra_def example_ir_def)
  qed
  have check: "\<not> checkAllTilableMatched example_ir_extra
                   (getParentOfType_FuncOp example_ir_extra 3) (3, reduction_info)
                   [10, 11, 12, 13] fill_captured_state"
    by (simp add: checkAllTilableMatched_def collectCaptured_def example_ir_extra_def
          example_ir_def fill_captured_state_def cells_written_state_def built_state_def
          makeReductionMatcher_state init_state_def)
  from run check facts(1)
  have a: "match (reductionM built_matchers) example_ir_extra 3 built_state
       = Inr (False, fill_captured_state)"
    by (simp add: match_def dyn_cast_LinalgOp_def)
  have b: "match (reductionM built_matchers) arbitrary_map_ir 3 built_state
       = Inr (False, cells_written_state)"
    by (simp add: match_def dyn_cast_LinalgOp_def facts built_matchers_def
          makeReductionMatcher_reduction
          rank_NumGreaterEqualTo_def rank_NumLowerEqualTo_def rank_CaptureStaticValue_def
          dim_IteratorType_def dim_CaptureStaticValue_def dim_AllDimsExcept_def
          DenseSet_insert_def getEmptyKey_def getTombstoneKey_def enumerate_eq_zip upt_rec
          input_NumEqualsTo_def input_AllOperands_IsProjectedPermutation_def
          getNumLoops_def getStaticLoopRanges_def getIteratorTypesArray_def
          getNumDpsInputs_def at_def arbitrary_map_info_def reduction_info_def
          cells_written_state_def example_captures_def)
  from facts a b show ?thesis by blast
qed

end
